theory Spec2Isabelle
  imports
    Complex_Main
    "HOL-Library.Char_ord"
    "HOL-Library.List_Lexorder"
    "HOL-Library.Product_Lexorder"
begin

section \<open>Data model\<close>

text \<open>
  The dashboard of \<^verbatim>\<open>app.py\<close> reads one spreadsheet into a pandas data frame and
  computes four aggregates from it. A data frame is modelled as the list of its rows, in
  table order; a column is the list of one field of the rows.

  Conventions of the embedding:
  \<^item> a missing value (pandas \<^verbatim>\<open>NaN\<close>, \<^verbatim>\<open>NaT\<close>) is \<open>None\<close>;
  \<^item> a temperature is a rational number: the finite values of the \<^verbatim>\<open>float64\<close> column, with
    exact arithmetic in place of rounded arithmetic;
  \<^item> a comparison with a missing value is false, as in pandas;
  \<^item> only the columns the loader and the aggregations read are kept
    (\<^verbatim>\<open>index\<close>, \<^verbatim>\<open>cidade\<close>, \<^verbatim>\<open>tempMed\<close>, \<^verbatim>\<open>isHW\<close>, and the derived \<^verbatim>\<open>year\<close>, \<^verbatim>\<open>month\<close>);
    \<^verbatim>\<open>cidade\<close> is a string in every row (the module-level \<^verbatim>\<open>sorted(df["cidade"].unique())\<close>
    needs mutually comparable values).
\<close>

datatype month_name =
  January | February | March | April | May | June |
  July | August | September | October | November | December

fun month_number :: "month_name \<Rightarrow> int" where
  "month_number January = 1"
| "month_number February = 2"
| "month_number March = 3"
| "month_number April = 4"
| "month_number May = 5"
| "month_number June = 6"
| "month_number July = 7"
| "month_number August = 8"
| "month_number September = 9"
| "month_number October = 10"
| "month_number November = 11"
| "month_number December = 12"

text \<open>\<^verbatim>\<open>strftime("%B")\<close>: the full month name (in the C locale, English).\<close>

fun strftime_B :: "month_name \<Rightarrow> string" where
  "strftime_B January = ''January''"
| "strftime_B February = ''February''"
| "strftime_B March = ''March''"
| "strftime_B April = ''April''"
| "strftime_B May = ''May''"
| "strftime_B June = ''June''"
| "strftime_B July = ''July''"
| "strftime_B August = ''August''"
| "strftime_B September = ''September''"
| "strftime_B October = ''October''"
| "strftime_B November = ''November''"
| "strftime_B December = ''December''"

text \<open>A calendar date, and a timestamp: a date with a time of day (nanoseconds after midnight).\<close>

record date =
  d_year :: int
  d_month :: month_name
  d_day :: nat

record timestamp =
  ts_date :: date
  ts_nanos :: nat

definition date_key :: "date \<Rightarrow> int \<times> int \<times> nat" where
  "date_key d = (d_year d, month_number (d_month d), d_day d)"

definition date_le :: "date \<Rightarrow> date \<Rightarrow> bool" where
  "date_le a b = (date_key a \<le> date_key b)"

definition ts_le :: "timestamp \<Rightarrow> timestamp \<Rightarrow> bool" where
  "ts_le a b = ((date_key (ts_date a), ts_nanos a) \<le> (date_key (ts_date b), ts_nanos b))"

text \<open>
  Comparison of two possibly missing values the way pandas evaluates it: false as soon as
  one side is missing.
\<close>

fun nat_cmp :: "('a \<Rightarrow> 'a \<Rightarrow> bool) \<Rightarrow> 'a option \<Rightarrow> 'a option \<Rightarrow> bool" where
  "nat_cmp le (Some a) (Some b) = le a b"
| "nat_cmp le _ _ = False"

text \<open>
  A raw value of the \<^verbatim>\<open>isHW\<close> column as the lambda of the loader receives it: a text, a
  boolean, an integer, a float, or the \<^verbatim>\<open>NaN\<close> of an empty cell. The spreadsheet reader
  types a column as a whole: a column of booleans or of 0/1 with an empty cell arrives as
  the floats \<^verbatim>\<open>1.0\<close>, \<^verbatim>\<open>0.0\<close> and \<^verbatim>\<open>NaN\<close>.

  A finite float is given by the decimal digits that \<^verbatim>\<open>float.__repr__\<close> prints for it, the
  shortest that identify it: \<open>PFloat neg m e\<close> is the float printed from the digits of
  \<open>m\<close> scaled by \<open>10 ^ e\<close>, negative when \<open>neg\<close> (\<open>m\<close> has no trailing zero
  unless it is \<open>0\<close>). \<open>PInf neg\<close> is an infinity.
\<close>

datatype pyval = PStr string | PBool bool | PInt int | PFloat bool nat int | PInf bool | PNaN

definition digit_char :: "nat \<Rightarrow> char" where
  "digit_char d = ''0123456789'' ! d"

fun digits :: "nat \<Rightarrow> string" where
  "digits n = (if n < 10 then [digit_char n] else digits (n div 10) @ [digit_char (n mod 10)])"

declare digits.simps [simp del]

definition str_int :: "int \<Rightarrow> string" where
  "str_int i = (if i < 0 then CHR ''-'' # digits (nat (- i)) else digits (nat i))"

text \<open>
  The string form of a finite float, from its digits. With \<open>decpt\<close> the position of the
  decimal point after the first digit's place, Python prints the exponent form when
  \<open>decpt \<le> -4\<close> or \<open>16 < decpt\<close> and the positional form otherwise (\<^verbatim>\<open>1.0\<close>, \<^verbatim>\<open>0.0001\<close>,
  \<^verbatim>\<open>1e-05\<close>, \<^verbatim>\<open>1e+16\<close>); the exponent has a sign and at least two digits.
\<close>

definition exp_str :: "int \<Rightarrow> string" where
  "exp_str x =
     (if x < 0 then ''-'' else ''+'') @
     (let d = digits (nat \<bar>x\<bar>) in if length d < 2 then CHR ''0'' # d else d)"

definition float_repr :: "bool \<Rightarrow> nat \<Rightarrow> int \<Rightarrow> string" where
  "float_repr neg m e =
     (let ds = digits m;
          n = int (length ds);
          decpt = n + e
      in (if neg then ''-'' else []) @
         (if decpt \<le> - 4 \<or> 16 < decpt
          then take 1 ds @ (if 1 < n then ''.'' @ drop 1 ds else []) @ ''e'' @ exp_str (decpt - 1)
          else if decpt \<le> 0
          then ''0.'' @ replicate (nat (- decpt)) CHR ''0'' @ ds
          else if n \<le> decpt
          then ds @ replicate (nat (decpt - n)) CHR ''0'' @ ''.0''
          else take (nat decpt) ds @ ''.'' @ drop (nat decpt) ds))"

text \<open>Python's \<^verbatim>\<open>str(x)\<close>.\<close>

fun py_str :: "pyval \<Rightarrow> string" where
  "py_str (PStr s) = s"
| "py_str (PBool b) = (if b then ''True'' else ''False'')"
| "py_str (PInt i) = str_int i"
| "py_str (PFloat neg m e) = float_repr neg m e"
| "py_str (PInf neg) = (if neg then ''-inf'' else ''inf'')"
| "py_str PNaN = ''nan''"

text \<open>
  Python's \<^verbatim>\<open>s.upper()\<close> on the ASCII letters; every other byte is kept. (No character
  outside ASCII has an upper case among the letters of \<^verbatim>\<open>TRUE\<close>.)
\<close>

definition upper_char :: "char \<Rightarrow> char" where
  "upper_char c =
     (case map_of (zip ''abcdefghijklmnopqrstuvwxyz'' ''ABCDEFGHIJKLMNOPQRSTUVWXYZ'') c of
        None \<Rightarrow> c
      | Some u \<Rightarrow> u)"

definition upper :: "string \<Rightarrow> string" where
  "upper s = map upper_char s"

text \<open>
  A row of the spreadsheet as read, and a row of the loaded table. The type \<open>'c\<close> of a
  raw \<^verbatim>\<open>index\<close> cell is left open: \<^verbatim>\<open>pd.to_datetime(..., errors="coerce")\<close> is a
  parameter of the loader, a function from a cell to a timestamp or to \<^verbatim>\<open>NaT\<close>.
\<close>

record 'c raw_row =
  r_index :: 'c
  r_cidade :: string
  r_tempMed :: "rat option"
  r_isHW :: pyval

record obs =
  index :: "timestamp option"
  cidade :: string
  tempMed :: "rat option"
  isHW :: string
  year :: "int option"
  month :: "int option"

text \<open>
  What \<^verbatim>\<open>pd.read_excel\<close> delivers when it can read the resource: the names of the columns
  it found and the rows. A sheet with a header row and no data has columns and no rows; a
  blank sheet has neither. The fields of a raw row are the cells of the columns of those
  names, where the sheet has them.
\<close>

record 'c sheet =
  sheet_columns :: "string list"
  sheet_rows :: "'c raw_row list"

text \<open>
  The errors of the loader: the error of \<^verbatim>\<open>pd.read_excel\<close> on an unreadable resource, and the
  \<^verbatim>\<open>KeyError\<close> of \<^verbatim>\<open>df[name]\<close> when the frame has no column of that name.
\<close>

datatype load_error = ReadError | ColumnKeyError string

section \<open>The loader\<close>

text \<open>
  \<^verbatim>\<open>
  def load_data():
      df = pd.read_excel(excel_path)
      df["index"] = pd.to_datetime(df["index"], errors="coerce")
      df["isHW"] = df["isHW"].apply(lambda x: str(x).upper())
      df["year"] = df["index"].dt.year
      df["month"] = df["index"].dt.month
      return df
  \<close>
  \<open>load_row\<close> is the effect of the four column assignments on one row; \<open>load_rows\<close>
  is their effect on the table. \<open>load_data\<close> takes the outcome of
  \<^verbatim>\<open>pd.read_excel\<close>: an error, which propagates, or the sheet read. The loader reads the
  column \<^verbatim>\<open>"index"\<close> first and the column \<^verbatim>\<open>"isHW"\<close> next, and each read raises when the
  column is not there; it reads no other column and never looks at the number of rows.
\<close>

definition load_row :: "('c \<Rightarrow> timestamp option) \<Rightarrow> 'c raw_row \<Rightarrow> obs" where
  "load_row to_datetime r =
     (let ix = to_datetime (r_index r) in
      \<lparr> index = ix,
        cidade = r_cidade r,
        tempMed = r_tempMed r,
        isHW = upper (py_str (r_isHW r)),
        year = map_option (\<lambda>t. d_year (ts_date t)) ix,
        month = map_option (\<lambda>t. month_number (d_month (ts_date t))) ix \<rparr>)"

definition load_rows :: "('c \<Rightarrow> timestamp option) \<Rightarrow> 'c raw_row list \<Rightarrow> obs list" where
  "load_rows to_datetime raw = map (load_row to_datetime) raw"

definition load_data ::
  "('c \<Rightarrow> timestamp option) \<Rightarrow> load_error + 'c sheet \<Rightarrow> load_error + obs list" where
  "load_data to_datetime read_excel =
     (case read_excel of
        Inl e \<Rightarrow> Inl e
      | Inr df \<Rightarrow>
          if ''index'' \<notin> set (sheet_columns df) then Inl (ColumnKeyError ''index'')
          else if ''isHW'' \<notin> set (sheet_columns df) then Inl (ColumnKeyError ''isHW'')
          else Inr (load_rows to_datetime (sheet_rows df)))"

text \<open>\<^verbatim>\<open>cidades = sorted(df["cidade"].unique())\<close>, the module-level list of known cities.\<close>

definition cidades :: "obs list \<Rightarrow> string list" where
  "cidades df = sort (remdups (map cidade df))"

section \<open>Data-frame operations\<close>

text \<open>
  \<^verbatim>\<open>Series.mean()\<close>: the mean of the values present (\<^verbatim>\<open>skipna=True\<close>), and \<^verbatim>\<open>NaN\<close> when
  there is none.
\<close>

definition series_mean :: "rat option list \<Rightarrow> rat option" where
  "series_mean xs =
     (let vs = List.map_filter (\<lambda>x. x) xs in
      if vs = [] then None else Some (sum_list vs / of_nat (length vs)))"

text \<open>Subtraction of floats: \<^verbatim>\<open>NaN\<close> as soon as one side is.\<close>

fun nan_minus :: "rat option \<Rightarrow> rat option \<Rightarrow> rat option" where
  "nan_minus (Some a) (Some b) = Some (a - b)"
| "nan_minus _ _ = None"

text \<open>
  \<^verbatim>\<open>df.groupby(key)\<close>: the rows whose key is missing are dropped, the groups come in
  ascending order of their keys, each group keeps its rows in table order.
\<close>

definition groupby :: "('r \<Rightarrow> ('k::linorder) option) \<Rightarrow> 'r list \<Rightarrow> ('k \<times> 'r list) list" where
  "groupby key rows =
     map (\<lambda>k. (k, filter (\<lambda>r. key r = Some k) rows))
       (sort (remdups (List.map_filter key rows)))"

text \<open>\<^verbatim>\<open>.size()\<close> of the groups.\<close>

definition groupby_size :: "('r \<Rightarrow> ('k::linorder) option) \<Rightarrow> 'r list \<Rightarrow> ('k \<times> nat) list" where
  "groupby_size key rows = map (\<lambda>(k, g). (k, length g)) (groupby key rows)"

text \<open>
  \<^verbatim>\<open>left.merge(right, on=key, how="left")\<close> for a left frame that has the key column
  only: every left row once per right row with the same key, and once with a missing
  value when there is none. \<^verbatim>\<open>fillna\<close> then replaces the missing values.
\<close>

definition merge_left :: "'k list \<Rightarrow> ('k \<times> 'v) list \<Rightarrow> ('k \<times> 'v option) list" where
  "merge_left left right =
     concat (map (\<lambda>k. case filter (\<lambda>p. fst p = k) right of
                          [] \<Rightarrow> [(k, None)]
                        | ms \<Rightarrow> map (\<lambda>p. (k, Some (snd p))) ms) left)"

definition fillna :: "'v \<Rightarrow> ('k \<times> 'v option) list \<Rightarrow> ('k \<times> 'v) list" where
  "fillna d rows = map (\<lambda>(k, v). (k, case v of None \<Rightarrow> d | Some x \<Rightarrow> x)) rows"

section \<open>The aggregations\<close>

text \<open>
  \<^verbatim>\<open>
  def calculate_anomalies(df, cidade, ano_inicio, ano_fim):
      dff = df[(df["cidade"] == cidade) & (df["year"] >= ano_inicio) & (df["year"] <= ano_fim)]
      baseline = dff["tempMed"].mean()
      df_anomalia = dff.groupby("year")["tempMed"].mean().reset_index()
      df_anomalia["anomalia"] = df_anomalia["tempMed"] - baseline
      return df_anomalia
  \<close>
\<close>

record anomaly =
  a_year :: int
  a_tempMed :: "rat option"
  anomalia :: "rat option"

definition anomalies_dff :: "obs list \<Rightarrow> string \<Rightarrow> int \<Rightarrow> int \<Rightarrow> obs list" where
  "anomalies_dff df c ano_inicio ano_fim =
     filter (\<lambda>r. cidade r = c
                \<and> nat_cmp (\<lambda>a b. b \<le> a) (year r) (Some ano_inicio)
                \<and> nat_cmp (\<lambda>a b. a \<le> b) (year r) (Some ano_fim)) df"

definition baseline :: "obs list \<Rightarrow> string \<Rightarrow> int \<Rightarrow> int \<Rightarrow> rat option" where
  "baseline df c ano_inicio ano_fim = series_mean (map tempMed (anomalies_dff df c ano_inicio ano_fim))"

definition calculate_anomalies :: "obs list \<Rightarrow> string \<Rightarrow> int \<Rightarrow> int \<Rightarrow> anomaly list" where
  "calculate_anomalies df c ano_inicio ano_fim =
     (let dff = anomalies_dff df c ano_inicio ano_fim;
          base = baseline df c ano_inicio ano_fim;
          df_anomalia = map (\<lambda>(y, g). (y, series_mean (map tempMed g))) (groupby year dff)
      in map (\<lambda>(y, m). \<lparr> a_year = y, a_tempMed = m, anomalia = nan_minus m base \<rparr>) df_anomalia)"

text \<open>
  \<^verbatim>\<open>
  def calculate_hw_monthly(df, cidade, ano):
      dff = df[(df["cidade"] == cidade) & (df["year"] == ano) & (df["isHW"] == "TRUE")].copy()
      dff["mes"] = dff["index"].dt.strftime("%B")
      monthly_counts = dff.groupby("mes").size().reset_index(name="frequencia")
      all_months = ["January", ..., "December"]
      monthly_counts = pd.DataFrame({"mes": all_months}).merge(
          monthly_counts, on="mes", how="left"
      ).fillna({"frequencia": 0})
      return monthly_counts
  \<close>
\<close>

definition all_months :: "string list" where
  "all_months =
     [''January'', ''February'', ''March'', ''April'', ''May'', ''June'',
      ''July'', ''August'', ''September'', ''October'', ''November'', ''December'']"

definition hw_monthly_dff :: "obs list \<Rightarrow> string \<Rightarrow> int \<Rightarrow> obs list" where
  "hw_monthly_dff df c ano =
     filter (\<lambda>r. cidade r = c \<and> year r = Some ano \<and> isHW r = ''TRUE'') df"

definition mes_of :: "obs \<Rightarrow> string option" where
  "mes_of r = map_option (\<lambda>t. strftime_B (d_month (ts_date t))) (index r)"

definition calculate_hw_monthly :: "obs list \<Rightarrow> string \<Rightarrow> int \<Rightarrow> (string \<times> nat) list" where
  "calculate_hw_monthly df c ano =
     (let dff = hw_monthly_dff df c ano;
          monthly_counts = groupby_size mes_of dff
      in fillna 0 (merge_left all_months monthly_counts))"

text \<open>
  \<^verbatim>\<open>
  def dias_ondas_calor(df, cidade):
      return df[(df["cidade"] == cidade) & (df["isHW"] == "TRUE")]["index"].dt.date.tolist()
  \<close>
  The \<^verbatim>\<open>.dt.date\<close> of a missing timestamp is missing again (\<^verbatim>\<open>NaT\<close>), and stays in the list.
\<close>

definition dias_ondas_calor :: "obs list \<Rightarrow> string \<Rightarrow> date option list" where
  "dias_ondas_calor df c =
     map (\<lambda>r. map_option ts_date (index r))
       (filter (\<lambda>r. cidade r = c \<and> isHW r = ''TRUE'') df)"

text \<open>
  \<^verbatim>\<open>
  def prepare_heatmap_data(df):
      df_heatmap = df[df["isHW"] == "TRUE"].groupby(["cidade", "year"]).size().reset_index(name="dias_hw")
      all_combinations = pd.MultiIndex.from_product([cidades, range(1981, 2024)],
                                                    names=["cidade", "year"]).to_frame(index=False)
      df_heatmap = all_combinations.merge(df_heatmap, on=["cidade", "year"], how="left").fillna({"dias_hw": 0})
      return df_heatmap
  \<close>
  The function reads the module-level \<^verbatim>\<open>cidades\<close>; it is the first argument here.
\<close>

definition cidade_year :: "obs \<Rightarrow> (string \<times> int) option" where
  "cidade_year r = map_option (\<lambda>y. (cidade r, y)) (year r)"

definition year_span :: "int list" where
  "year_span = [1981..2023]"

definition all_combinations :: "string list \<Rightarrow> (string \<times> int) list" where
  "all_combinations cs = List.product cs year_span"

definition prepare_heatmap_data :: "string list \<Rightarrow> obs list \<Rightarrow> ((string \<times> int) \<times> nat) list" where
  "prepare_heatmap_data cs df =
     (let df_heatmap = groupby_size cidade_year (filter (\<lambda>r. isHW r = ''TRUE'') df)
      in fillna 0 (merge_left (all_combinations cs) df_heatmap))"

text \<open>The twelve months in calendar order, and the test that a year lies in the fixed span.\<close>

definition months :: "month_name list" where
  "months = [January, February, March, April, May, June, July, August, September, October, November, December]"

definition in_span :: "int option \<Rightarrow> bool" where
  "in_span y = (case y of None \<Rightarrow> False | Some v \<Rightarrow> 1981 \<le> v \<and> v \<le> 2023)"

text \<open>The test that a year is present and lies in an inclusive range.\<close>

definition year_between :: "int \<Rightarrow> int \<Rightarrow> int option \<Rightarrow> bool" where
  "year_between lo hi y = (case y of None \<Rightarrow> False | Some v \<Rightarrow> lo \<le> v \<and> v \<le> hi)"

text \<open>
  The rule of the specification for the heat-wave flag, in its words: the string form of
  the raw value, in upper case, equals \<^verbatim>\<open>"TRUE"\<close>.
\<close>

definition hw_rule :: "pyval \<Rightarrow> bool" where
  "hw_rule x = (upper (py_str x) = ''TRUE'')"

section \<open>An example table\<close>

text \<open>
  Eight rows of two cities. The fifth has a timestamp that does not parse; the raw flags
  use several encodings.
\<close>

definition mk_ts :: "int \<Rightarrow> month_name \<Rightarrow> nat \<Rightarrow> timestamp" where
  "mk_ts y m d = \<lparr>ts_date = \<lparr>d_year = y, d_month = m, d_day = d\<rparr>, ts_nanos = 0\<rparr>"

definition example_to_datetime :: "string \<Rightarrow> timestamp option" where
  "example_to_datetime =
     [''2020-01-03'' \<mapsto> mk_ts 2020 January 3,
      ''2020-01-04'' \<mapsto> mk_ts 2020 January 4,
      ''2020-01-05'' \<mapsto> mk_ts 2020 January 5,
      ''2020-03-05'' \<mapsto> mk_ts 2020 March 5,
      ''2021-02-01'' \<mapsto> mk_ts 2021 February 1,
      ''2021-02-02'' \<mapsto> mk_ts 2021 February 2,
      ''2021-02-03'' \<mapsto> mk_ts 2021 February 3]"

definition example_raw :: "string raw_row list" where
  "example_raw =
     [\<lparr>r_index = ''2020-01-03'', r_cidade = ''Recife'', r_tempMed = Some 30, r_isHW = PBool True\<rparr>,
      \<lparr>r_index = ''2020-01-04'', r_cidade = ''Recife'', r_tempMed = Some 31, r_isHW = PStr ''true''\<rparr>,
      \<lparr>r_index = ''2020-01-05'', r_cidade = ''Recife'', r_tempMed = Some 32, r_isHW = PStr ''TRUE''\<rparr>,
      \<lparr>r_index = ''2020-03-05'', r_cidade = ''Recife'', r_tempMed = Some 29, r_isHW = PInt 1\<rparr>,
      \<lparr>r_index = ''n/a'', r_cidade = ''Recife'', r_tempMed = Some 40, r_isHW = PStr ''TRUE''\<rparr>,
      \<lparr>r_index = ''2021-02-01'', r_cidade = ''Recife'', r_tempMed = Some (71 / 2), r_isHW = PBool False\<rparr>,
      \<lparr>r_index = ''2021-02-02'', r_cidade = ''Natal'', r_tempMed = Some 28, r_isHW = PStr ''True''\<rparr>,
      \<lparr>r_index = ''2021-02-03'', r_cidade = ''Natal'', r_tempMed = Some 29, r_isHW = PStr ''TRUE''\<rparr>]"

definition example_columns :: "string list" where
  "example_columns =
     [''index'', ''cidade'', ''tempMax'', ''tempMed'', ''tempMin'', ''isHW'', ''Lat'', ''Long'']"

definition example_df :: "obs list" where
  "example_df = load_rows example_to_datetime example_raw"

text \<open>The raw rows whose timestamp parses.\<close>

definition drop_unparseable :: "('c \<Rightarrow> timestamp option) \<Rightarrow> 'c raw_row list \<Rightarrow> 'c raw_row list" where
  "drop_unparseable to_datetime raw = filter (\<lambda>r. to_datetime (r_index r) \<noteq> None) raw"

section \<open>The aggregations on a store of data-frame objects\<close>

text \<open>
  A pandas data frame is a mutable object, and the aggregations receive a reference to
  the loaded table. To state that they leave the table alone, the functions are modelled
  a second time on a store: the list of the data-frame objects allocated so far, a
  reference being an index into it, together with the module-level list \<^verbatim>\<open>cidades\<close>.
  A frame of observations can carry the extra column \<^verbatim>\<open>"mes"\<close>.

  \<^item> \<^verbatim>\<open>df[mask]\<close> allocates a new frame with the selected rows;
  \<^item> \<^verbatim>\<open>.copy()\<close> allocates a new frame with the same content;
  \<^item> \<^verbatim>\<open>dff["mes"] = ...\<close> writes the column into the object \<^verbatim>\<open>dff\<close> refers to;
  \<^item> \<^verbatim>\<open>groupby\<close>, \<^verbatim>\<open>merge\<close>, \<^verbatim>\<open>fillna\<close>, \<^verbatim>\<open>reset_index\<close> build new frames from values; these
    results are kept as values (the assignment \<^verbatim>\<open>df_anomalia["anomalia"] = ...\<close> writes into
    such a new frame).
\<close>

record frame =
  frame_rows :: "obs list"
  mes_col :: "string option list option"

record state =
  frames :: "frame list"
  g_cidades :: "string list"

datatype py_error = KeyError

definition alloc :: "frame \<Rightarrow> state \<Rightarrow> nat \<times> state" where
  "alloc f s = (length (frames s), s\<lparr>frames := frames s @ [f]\<rparr>)"

definition getitem_mask :: "(obs \<Rightarrow> bool) \<Rightarrow> nat \<Rightarrow> state \<Rightarrow> nat \<times> state" where
  "getitem_mask P a s =
     (let f = frames s ! a in
      alloc \<lparr> frame_rows = filter P (frame_rows f),
              mes_col = map_option (\<lambda>col. map snd (filter (\<lambda>p. P (fst p)) (zip (frame_rows f) col)))
                          (mes_col f) \<rparr> s)"

definition copy :: "nat \<Rightarrow> state \<Rightarrow> nat \<times> state" where
  "copy a s = alloc (frames s ! a) s"

definition setitem_mes :: "nat \<Rightarrow> string option list \<Rightarrow> state \<Rightarrow> state" where
  "setitem_mes a col s = s\<lparr>frames := (frames s)[a := (frames s ! a)\<lparr>mes_col := Some col\<rparr>]\<rparr>"

definition calculate_anomalies_st ::
  "nat \<Rightarrow> string \<Rightarrow> int \<Rightarrow> int \<Rightarrow> state \<Rightarrow> anomaly list \<times> state" where
  "calculate_anomalies_st df c ano_inicio ano_fim s =
     (let (dff, s1) = getitem_mask (\<lambda>r. cidade r = c
                                       \<and> nat_cmp (\<lambda>a b. b \<le> a) (year r) (Some ano_inicio)
                                       \<and> nat_cmp (\<lambda>a b. a \<le> b) (year r) (Some ano_fim)) df s;
          base = series_mean (map tempMed (frame_rows (frames s1 ! dff)));
          df_anomalia = map (\<lambda>(y, g). (y, series_mean (map tempMed g)))
                          (groupby year (frame_rows (frames s1 ! dff)))
      in (map (\<lambda>(y, m). \<lparr> a_year = y, a_tempMed = m, anomalia = nan_minus m base \<rparr>) df_anomalia, s1))"

definition calculate_hw_monthly_st ::
  "nat \<Rightarrow> string \<Rightarrow> int \<Rightarrow> state \<Rightarrow> (py_error + (string \<times> nat) list) \<times> state" where
  "calculate_hw_monthly_st df c ano s =
     (let (sel, s1) = getitem_mask (\<lambda>r. cidade r = c \<and> year r = Some ano \<and> isHW r = ''TRUE'') df s;
          (dff, s2) = copy sel s1;
          s3 = setitem_mes dff (map mes_of (frame_rows (frames s2 ! dff))) s2
      in case mes_col (frames s3 ! dff) of
           None \<Rightarrow> (Inl KeyError, s3)
         | Some col \<Rightarrow>
             (Inr (fillna 0 (merge_left all_months
                     (groupby_size snd (zip (frame_rows (frames s3 ! dff)) col)))), s3))"

definition dias_ondas_calor_st :: "nat \<Rightarrow> string \<Rightarrow> state \<Rightarrow> date option list \<times> state" where
  "dias_ondas_calor_st df c s =
     (let (sel, s1) = getitem_mask (\<lambda>r. cidade r = c \<and> isHW r = ''TRUE'') df s
      in (map (\<lambda>r. map_option ts_date (index r)) (frame_rows (frames s1 ! sel)), s1))"

definition prepare_heatmap_data_st :: "nat \<Rightarrow> state \<Rightarrow> ((string \<times> int) \<times> nat) list \<times> state" where
  "prepare_heatmap_data_st df s =
     (let (sel, s1) = getitem_mask (\<lambda>r. isHW r = ''TRUE'') df s;
          df_heatmap = groupby_size cidade_year (frame_rows (frames s1 ! sel))
      in (fillna 0 (merge_left (all_combinations (g_cidades s1)) df_heatmap), s1))"

text \<open>
  The store after a call against the store before it: every object that existed is
  unchanged, and so is \<^verbatim>\<open>cidades\<close>; objects may have been added.
\<close>

definition preserved :: "state \<Rightarrow> state \<Rightarrow> bool" where
  "preserved s s' = (take (length (frames s)) (frames s') = frames s \<and> g_cidades s' = g_cidades s)"

definition example_state :: state where
  "example_state = \<lparr> frames = [\<lparr>frame_rows = example_df, mes_col = None\<rparr>], g_cidades = cidades example_df \<rparr>"

section \<open>Properties\<close>

subsection \<open>Grouping, merging and counting\<close>

lemma groupby_keys: "map fst (groupby key rows) = sort (remdups (List.map_filter key rows))"
  by (simp add: groupby_def comp_def)

lemma groupby_size_keys: "map fst (groupby_size key rows) = sort (remdups (List.map_filter key rows))"
  by (simp add: groupby_size_def groupby_def comp_def)

lemma groupby_size_distinct: "distinct (map fst (groupby_size key rows))"
  by (simp add: groupby_size_keys)

lemma set_map_filter_key: "set (List.map_filter key rows) = {k. \<exists>r \<in> set rows. key r = Some k}"
  by (induction rows) (auto split: option.splits)

lemma groupby_size_map_of:
  "map_of (groupby_size key rows) k =
     (if (\<exists>r \<in> set rows. key r = Some k) then Some (length (filter (\<lambda>r. key r = Some k) rows)) else None)"
proof -
  have "groupby_size key rows = map (\<lambda>k. (k, length (filter (\<lambda>r. key r = Some k) rows))) (sort (remdups (List.map_filter key rows)))"
    by (simp add: groupby_size_def groupby_def comp_def)
  then show ?thesis
    by (auto simp: map_of_map_restrict restrict_map_def set_map_filter_key)
qed

lemma merge_left_distinct:
  assumes "distinct (map fst right)"
  shows "merge_left left right = map (\<lambda>k. (k, map_of right k)) left"
proof -
  have one: "(case filter (\<lambda>p. fst p = k) right of [] \<Rightarrow> [(k, None)] | ms \<Rightarrow> map (\<lambda>p. (k, Some (snd p))) ms) = [(k, map_of right k)]" for k
    using assms
  proof (induction right)
    case Nil
    then show ?case by simp
  next
    case (Cons p ps)
    show ?case
    proof (cases "fst p = k")
      case True
      with Cons.prems have "filter (\<lambda>q. fst q = k) ps = []"
        by (auto simp: filter_empty_conv image_iff)
      with True show ?thesis by (cases p) auto
    next
      case False
      with Cons show ?thesis by (cases p) auto
    qed
  qed
  show ?thesis
    unfolding merge_left_def by (induction left) (simp_all add: one)
qed

lemma count_table:
  "fillna 0 (merge_left left (groupby_size key rows)) =
     map (\<lambda>k. (k, length (filter (\<lambda>r. key r = Some k) rows))) left"
proof -
  have "(case map_of (groupby_size key rows) k of None \<Rightarrow> 0 | Some x \<Rightarrow> x) = length (filter (\<lambda>r. key r = Some k) rows)" for k
    by (auto simp: groupby_size_map_of filter_empty_conv)
  then show ?thesis
    by (simp add: merge_left_distinct [OF groupby_size_distinct] fillna_def comp_def)
qed

lemma sum_counts:
  "distinct ks \<Longrightarrow>
     sum_list (map (\<lambda>k. length (filter (\<lambda>r. f r = Some k) xs)) ks) =
     length (filter (\<lambda>r. \<exists>k \<in> set ks. f r = Some k) xs)"
proof (induction ks)
  case Nil
  then show ?case by simp
next
  case (Cons k ks)
  have "length (filter (\<lambda>r. f r = Some k \<or> (\<exists>k\<in>set ks. f r = Some k)) xs) =
        length (filter (\<lambda>r. f r = Some k) xs) + length (filter (\<lambda>r. \<exists>k\<in>set ks. f r = Some k) xs)"
    using Cons.prems by (induction xs) auto
  with Cons show ?case by simp
qed


lemma all_months_strftime: "all_months = map strftime_B months"
  by (simp add: all_months_def months_def)

lemma strftime_B_inj: "strftime_B a = strftime_B b \<longleftrightarrow> a = b"
  by (cases a; cases b; simp)

lemma months_distinct: "distinct months"
  by (simp add: months_def)

lemma months_complete: "mo \<in> set months"
  by (cases mo) (simp_all add: months_def)

lemma load_row_year_index: "r \<in> set (load_rows td raw) \<Longrightarrow> year r = Some y \<Longrightarrow> \<exists>t. index r = Some t"
  by (auto simp: load_rows_def load_row_def Let_def)

lemma hw_monthly_table:
  "calculate_hw_monthly df c ano =
     map (\<lambda>mo. (strftime_B mo,
            length (filter (\<lambda>r. cidade r = c \<and> year r = Some ano \<and> isHW r = ''TRUE''
                       \<and> map_option (\<lambda>t. d_month (ts_date t)) (index r) = Some mo) df))) months"
proof -
  have "mes_of r = Some (strftime_B mo) \<longleftrightarrow> map_option (\<lambda>t. d_month (ts_date t)) (index r) = Some mo" for r mo
    by (cases "index r") (auto simp: mes_of_def strftime_B_inj)
  then show ?thesis
    by (simp add: calculate_hw_monthly_def Let_def count_table all_months_strftime comp_def hw_monthly_dff_def conj_ac)
qed


subsection \<open>Monthly heat-wave frequency\<close>

text \<open>
  Claim C1. On every loaded table, for every city and year, \<open>calculate_hw_monthly\<close>
  returns exactly 12 records, named January to December in calendar order; the count of a
  month is the number of rows of that city and year with the flag \<^verbatim>\<open>"TRUE"\<close> whose timestamp
  falls in that month (so 0 when there is none); and the 12 counts add up to the number of
  rows of that city and year with the flag \<^verbatim>\<open>"TRUE"\<close>.
\<close>

theorem calculate_hw_monthly_twelve_months:
  "length (calculate_hw_monthly (load_rows td raw) c ano) = 12
   \<and> map fst (calculate_hw_monthly (load_rows td raw) c ano) =
       [''January'', ''February'', ''March'', ''April'', ''May'', ''June'',
        ''July'', ''August'', ''September'', ''October'', ''November'', ''December'']
   \<and> map snd (calculate_hw_monthly (load_rows td raw) c ano) =
       map (\<lambda>mo. length (filter (\<lambda>r. cidade r = c \<and> year r = Some ano \<and> isHW r = ''TRUE''
                                   \<and> map_option (\<lambda>t. d_month (ts_date t)) (index r) = Some mo)
                          (load_rows td raw)))
         [January, February, March, April, May, June,
          July, August, September, October, November, December]
   \<and> sum_list (map snd (calculate_hw_monthly (load_rows td raw) c ano)) =
       length (filter (\<lambda>r. cidade r = c \<and> year r = Some ano \<and> isHW r = ''TRUE'') (load_rows td raw))"
proof -
  let ?df = "load_rows td raw"
  let ?hw = "\<lambda>r. cidade r = c \<and> year r = Some ano \<and> isHW r = ''TRUE''"
  let ?mo = "\<lambda>r. map_option (\<lambda>t. d_month (ts_date t)) (index r)"
  note tab = hw_monthly_table [of ?df c ano]
  have len: "length (calculate_hw_monthly ?df c ano) = 12"
    by (simp add: tab months_def)
  have names: "map fst (calculate_hw_monthly ?df c ano) = map strftime_B months"
    by (simp add: tab comp_def)
  have counts: "map snd (calculate_hw_monthly ?df c ano) =
      map (\<lambda>mo. length (filter (\<lambda>r. ?hw r \<and> ?mo r = Some mo) ?df)) months"
    by (simp add: tab comp_def)
  have split: "filter (\<lambda>r. ?hw r \<and> ?mo r = Some mo) ?df = filter (\<lambda>r. ?mo r = Some mo) (filter ?hw ?df)" for mo
    by (simp add: conj_commute)
  have "sum_list (map snd (calculate_hw_monthly ?df c ano)) =
        length (filter (\<lambda>r. \<exists>mo \<in> set months. ?mo r = Some mo) (filter ?hw ?df))"
    unfolding counts split by (rule sum_counts [OF months_distinct])
  also have "\<dots> = length (filter ?hw ?df)"
  proof -
    have "\<exists>mo \<in> set months. ?mo r = Some mo" if "r \<in> set (filter ?hw ?df)" for r
    proof -
      from that have "r \<in> set ?df" "year r = Some ano" by simp_all
      then obtain t where "index r = Some t" using load_row_year_index by blast
      then show ?thesis by (simp add: months_complete)
    qed
    then have "filter (\<lambda>r. \<exists>mo \<in> set months. ?mo r = Some mo) (filter ?hw ?df) = filter ?hw ?df"
      by (intro filter_True) blast
    then show ?thesis by simp
  qed
  finally have total: "sum_list (map snd (calculate_hw_monthly ?df c ano)) = length (filter ?hw ?df)" .
  from len names counts total show ?thesis
    by (simp add: months_def)
qed

lemma year_span_set: "set year_span = {1981..2023}"
  unfolding year_span_def by (rule set_upto)

lemma year_span_distinct: "distinct year_span"
  unfolding year_span_def by (rule distinct_upto)

lemma year_span_length: "length year_span = 43"
  unfolding year_span_def by (simp only: length_upto)

lemma heatmap_table:
  "prepare_heatmap_data cs df =
     map (\<lambda>k. (k, length (filter (\<lambda>r. cidade r = fst k \<and> year r = Some (snd k) \<and> isHW r = ''TRUE'') df)))
       (List.product cs year_span)"
proof -
  have "(cidade_year r = Some k \<and> isHW r = ''TRUE'') \<longleftrightarrow> (cidade r = fst k \<and> year r = Some (snd k) \<and> isHW r = ''TRUE'')" for r k
    by (cases "year r"; cases k) (auto simp: cidade_year_def)
  then show ?thesis
    by (simp add: prepare_heatmap_data_def Let_def count_table all_combinations_def conj_commute)
qed

lemma cidades_set: "set (cidades df) = cidade ` set df"
  by (simp add: cidades_def)

lemma cidades_distinct: "distinct (cidades df)"
  by (simp add: cidades_def)

subsection \<open>Heat-wave days grid\<close>

text \<open>
  Claim C3. For every table and list of cities, \<open>prepare_heatmap_data\<close> returns
  \<open>length cs * 43\<close> rows, one per pair of the cross product of the cities with the years
  1981 to 2023, in that order; a cell holds the number of rows of that city and year with
  the flag \<^verbatim>\<open>"TRUE"\<close>; and with the known cities of the table itself, as the program binds
  them, the cells add up to the number of rows with the flag \<^verbatim>\<open>"TRUE"\<close> whose year lies
  in the span.
\<close>

theorem prepare_heatmap_data_grid:
  "length (prepare_heatmap_data cs df) = length cs * 43
   \<and> map fst (prepare_heatmap_data cs df) = List.product cs [1981..2023]
   \<and> map snd (prepare_heatmap_data cs df) =
       map (\<lambda>k. length (filter (\<lambda>r. cidade r = fst k \<and> year r = Some (snd k) \<and> isHW r = ''TRUE'') df))
         (List.product cs [1981..2023])
   \<and> sum_list (map snd (prepare_heatmap_data (cidades df) df)) =
       length (filter (\<lambda>r. isHW r = ''TRUE'' \<and> in_span (year r)) df)"
proof -
  let ?grid = "\<lambda>cs. List.product cs year_span"
  let ?hw = "\<lambda>r. isHW r = ''TRUE''"
  have len: "length (prepare_heatmap_data cs df) = length cs * 43"
    by (simp add: heatmap_table year_span_length)
  have keys: "map fst (prepare_heatmap_data cs df) = ?grid cs"
    by (simp add: heatmap_table comp_def)
  have cells: "map snd (prepare_heatmap_data cs df) =
       map (\<lambda>k. length (filter (\<lambda>r. cidade r = fst k \<and> year r = Some (snd k) \<and> isHW r = ''TRUE'') df)) (?grid cs)"
    by (simp add: heatmap_table comp_def)
  have key: "(cidade r = fst k \<and> year r = Some (snd k) \<and> isHW r = ''TRUE'') \<longleftrightarrow> (?hw r \<and> cidade_year r = Some k)" for r k
    by (cases "year r"; cases k) (auto simp: cidade_year_def)
  have "sum_list (map snd (prepare_heatmap_data (cidades df) df)) =
        sum_list (map (\<lambda>k. length (filter (\<lambda>r. cidade_year r = Some k) (filter ?hw df))) (?grid (cidades df)))"
    by (simp add: heatmap_table comp_def key conj_commute)
  also have "\<dots> = length (filter (\<lambda>r. \<exists>k \<in> set (?grid (cidades df)). cidade_year r = Some k) (filter ?hw df))"
    by (rule sum_counts) (simp add: distinct_product cidades_distinct year_span_distinct)
  also have "\<dots> = length (filter (\<lambda>r. ?hw r \<and> in_span (year r)) df)"
  proof -
    have "(\<exists>k \<in> set (?grid (cidades df)). cidade_year r = Some k) \<longleftrightarrow> in_span (year r)" if "r \<in> set df" for r
      using that by (cases "year r") (auto simp: cidade_year_def cidades_set in_span_def year_span_set)
    then have "filter (\<lambda>r. \<exists>k \<in> set (?grid (cidades df)). cidade_year r = Some k) (filter ?hw df)
             = filter (\<lambda>r. in_span (year r)) (filter ?hw df)"
      by (intro filter_cong) auto
    then show ?thesis by (simp add: conj_commute)
  qed
  finally have total: "sum_list (map snd (prepare_heatmap_data (cidades df) df)) =
       length (filter (\<lambda>r. ?hw r \<and> in_span (year r)) df)" .
  show ?thesis
    unfolding year_span_def [symmetric] using len keys cells total by blast
qed

subsection \<open>The example table, loaded\<close>

lemma example_df_rows:
  "example_df =
     [\<lparr>index = Some (mk_ts 2020 January 3), cidade = ''Recife'', tempMed = Some 30, isHW = ''TRUE'', year = Some 2020, month = Some 1\<rparr>,
      \<lparr>index = Some (mk_ts 2020 January 4), cidade = ''Recife'', tempMed = Some 31, isHW = ''TRUE'', year = Some 2020, month = Some 1\<rparr>,
      \<lparr>index = Some (mk_ts 2020 January 5), cidade = ''Recife'', tempMed = Some 32, isHW = ''TRUE'', year = Some 2020, month = Some 1\<rparr>,
      \<lparr>index = Some (mk_ts 2020 March 5), cidade = ''Recife'', tempMed = Some 29, isHW = ''1'', year = Some 2020, month = Some 3\<rparr>,
      \<lparr>index = None, cidade = ''Recife'', tempMed = Some 40, isHW = ''TRUE'', year = None, month = None\<rparr>,
      \<lparr>index = Some (mk_ts 2021 February 1), cidade = ''Recife'', tempMed = Some (71 / 2), isHW = ''FALSE'', year = Some 2021, month = Some 2\<rparr>,
      \<lparr>index = Some (mk_ts 2021 February 2), cidade = ''Natal'', tempMed = Some 28, isHW = ''TRUE'', year = Some 2021, month = Some 2\<rparr>,
      \<lparr>index = Some (mk_ts 2021 February 3), cidade = ''Natal'', tempMed = Some 29, isHW = ''TRUE'', year = Some 2021, month = Some 2\<rparr>]"
  by (simp add: example_df_def example_raw_def example_to_datetime_def load_rows_def load_row_def
      upper_def upper_char_def str_int_def digits.simps digit_char_def mk_ts_def)

lemma example_anomalies:
  "calculate_anomalies example_df ''Recife'' 2020 2021 =
     [\<lparr>a_year = 2020, a_tempMed = Some (61 / 2), anomalia = Some (- 1)\<rparr>,
      \<lparr>a_year = 2021, a_tempMed = Some (71 / 2), anomalia = Some 4\<rparr>]"
  by (simp add: example_df_rows calculate_anomalies_def anomalies_dff_def baseline_def groupby_def
      series_mean_def Let_def)

lemma example_baseline: "baseline example_df ''Recife'' 2020 2021 = Some (63 / 2)"
  by (simp add: example_df_rows anomalies_dff_def baseline_def series_mean_def Let_def)

subsection \<open>Anomalies\<close>

lemma anomalies_dff_eq:
  "anomalies_dff df c a b = filter (\<lambda>r. cidade r = c \<and> year_between a b (year r)) df"
proof -
  have "(nat_cmp (\<lambda>x y. y \<le> x) y (Some a) \<and> nat_cmp (\<lambda>x y. x \<le> y) y (Some b)) = year_between a b y" for y
    by (cases y) (simp_all add: year_between_def)
  then show ?thesis
    by (simp add: anomalies_dff_def)
qed

lemma anomalies_table:
  "calculate_anomalies df c a b =
     map (\<lambda>y. \<lparr> a_year = y,
                a_tempMed = series_mean (map tempMed (filter (\<lambda>r. year r = Some y) (anomalies_dff df c a b))),
                anomalia = nan_minus (series_mean (map tempMed (filter (\<lambda>r. year r = Some y) (anomalies_dff df c a b))))
                             (baseline df c a b) \<rparr>)
       (sort (remdups (List.map_filter year (anomalies_dff df c a b))))"
  by (simp add: calculate_anomalies_def groupby_def Let_def comp_def)

lemma series_mean_present:
  "series_mean (map Some vs) = (if vs = [] then None else Some (sum_list vs / of_nat (length vs)))"
proof -
  have "List.map_filter (\<lambda>x. x) (map Some vs) = vs"
    by (induction vs) simp_all
  then show ?thesis
    by (simp add: series_mean_def)
qed

lemma series_mean_skips_missing:
  "series_mean xs = series_mean (filter (\<lambda>x. x \<noteq> None) xs)"
proof -
  have "List.map_filter (\<lambda>x. x) (filter (\<lambda>x. x \<noteq> None) xs) = List.map_filter (\<lambda>x. x) xs"
    by (induction xs) (auto split: option.splits)
  then show ?thesis
    by (simp add: series_mean_def)
qed

lemma series_mean_Some_iff: "(\<exists>m. series_mean xs = Some m) \<longleftrightarrow> (\<exists>v. Some v \<in> set xs)"
proof -
  have "set (List.map_filter (\<lambda>x. x) xs) = {v. Some v \<in> set xs}"
    by (simp add: set_map_filter_key)
  then have "(List.map_filter (\<lambda>x. x) xs = []) \<longleftrightarrow> \<not> (\<exists>v. Some v \<in> set xs)"
    by (metis (mono_tags, lifting) empty_Collect_eq set_empty)
  then show ?thesis
    by (simp add: series_mean_def Let_def)
qed

lemma baseline_present:
  assumes "series_mean (map tempMed (filter (\<lambda>r. year r = Some y) (anomalies_dff df c a b))) = Some m"
  shows "\<exists>base. baseline df c a b = Some base"
proof -
  from assms obtain v
    where "Some v \<in> set (map tempMed (filter (\<lambda>r. year r = Some y) (anomalies_dff df c a b)))"
    using series_mean_Some_iff by blast
  then have "Some v \<in> set (map tempMed (anomalies_dff df c a b))"
    by auto
  then show ?thesis
    unfolding baseline_def using series_mean_Some_iff by blast
qed

text \<open>
  Claim C2. For every table, city and inclusive year range: the records of
  \<open>calculate_anomalies\<close> come in strictly ascending order of their years; their years are
  exactly the years of the rows of that city whose year lies in the range; the baseline is
  the mean of \<^verbatim>\<open>tempMed\<close> over all those rows together; each record holds the mean of
  \<^verbatim>\<open>tempMed\<close> over the rows of its year, and its anomaly is that mean minus the baseline
  (the baseline is present whenever the mean of a year is; the anomaly is missing when the
  mean of the year is). The mean is the arithmetic mean of the values present: missing
  values are skipped, and the mean of values that are all present is their sum divided by
  their number (missing when there is none).
\<close>

theorem calculate_anomalies_spec:
  "sorted (map a_year (calculate_anomalies df c a b))
   \<and> distinct (map a_year (calculate_anomalies df c a b))
   \<and> set (map a_year (calculate_anomalies df c a b)) =
       {y. a \<le> y \<and> y \<le> b \<and> (\<exists>r \<in> set df. cidade r = c \<and> year r = Some y)}
   \<and> baseline df c a b =
       series_mean (map tempMed (filter (\<lambda>r. cidade r = c \<and> year_between a b (year r)) df))
   \<and> (\<forall>rec \<in> set (calculate_anomalies df c a b).
         a_tempMed rec = series_mean (map tempMed (filter (\<lambda>r. cidade r = c \<and> year r = Some (a_year rec)) df))
       \<and> (a_tempMed rec = None \<longrightarrow> anomalia rec = None)
       \<and> (\<forall>m. a_tempMed rec = Some m \<longrightarrow>
             (\<exists>base. baseline df c a b = Some base \<and> anomalia rec = Some (m - base))))
   \<and> series_mean (map Some vs) = (if vs = [] then None else Some (sum_list vs / of_nat (length vs)))
   \<and> series_mean xs = series_mean (filter (\<lambda>x. x \<noteq> None) xs)"
proof -
  let ?dff = "anomalies_dff df c a b"
  let ?keys = "sort (remdups (List.map_filter year ?dff))"
  have years: "map a_year (calculate_anomalies df c a b) = ?keys"
    by (simp add: anomalies_table comp_def)
  have keys_set: "set ?keys = {y. a \<le> y \<and> y \<le> b \<and> (\<exists>r \<in> set df. cidade r = c \<and> year r = Some y)}"
    by (auto simp: set_map_filter_key anomalies_dff_eq year_between_def)
  have base: "baseline df c a b =
       series_mean (map tempMed (filter (\<lambda>r. cidade r = c \<and> year_between a b (year r)) df))"
    by (simp add: baseline_def anomalies_dff_eq)
  have group: "filter (\<lambda>r. year r = Some y) ?dff = filter (\<lambda>r. cidade r = c \<and> year r = Some y) df"
    if "y \<in> set ?keys" for y
  proof -
    from that have "a \<le> y" "y \<le> b" unfolding keys_set by simp_all
    then have "(cidade r = c \<and> year_between a b (year r) \<and> year r = Some y) = (cidade r = c \<and> year r = Some y)" for r :: obs
      by (auto simp: year_between_def)
    then show ?thesis
      by (simp add: anomalies_dff_eq)
  qed
  have recs: "a_tempMed rec = series_mean (map tempMed (filter (\<lambda>r. cidade r = c \<and> year r = Some (a_year rec)) df))
       \<and> (a_tempMed rec = None \<longrightarrow> anomalia rec = None)
       \<and> (\<forall>m. a_tempMed rec = Some m \<longrightarrow>
             (\<exists>base. baseline df c a b = Some base \<and> anomalia rec = Some (m - base)))"
    if "rec \<in> set (calculate_anomalies df c a b)" for rec
  proof -
    from that obtain y where y: "y \<in> set ?keys" and rec: "rec = \<lparr> a_year = y,
                a_tempMed = series_mean (map tempMed (filter (\<lambda>r. year r = Some y) ?dff)),
                anomalia = nan_minus (series_mean (map tempMed (filter (\<lambda>r. year r = Some y) ?dff)))
                             (baseline df c a b) \<rparr>"
      unfolding anomalies_table by auto
    have mean: "a_tempMed rec = series_mean (map tempMed (filter (\<lambda>r. cidade r = c \<and> year r = Some (a_year rec)) df))"
      by (simp add: rec group [OF y])
    have missing: "anomalia rec = None" if "a_tempMed rec = None"
      using that by (simp add: rec)
    have difference: "\<exists>base. baseline df c a b = Some base \<and> anomalia rec = Some (m - base)"
      if "a_tempMed rec = Some m" for m
    proof -
      from that have m: "series_mean (map tempMed (filter (\<lambda>r. year r = Some y) ?dff)) = Some m"
        by (simp add: rec)
      then obtain base where "baseline df c a b = Some base"
        using baseline_present by blast
      with m show ?thesis
        by (simp add: rec)
    qed
    from mean missing difference show ?thesis
      by blast
  qed
  have "sorted (map a_year (calculate_anomalies df c a b))"
    and "distinct (map a_year (calculate_anomalies df c a b))"
    by (simp_all add: years)
  moreover have "set (map a_year (calculate_anomalies df c a b)) =
       {y. a \<le> y \<and> y \<le> b \<and> (\<exists>r \<in> set df. cidade r = c \<and> year r = Some y)}"
    unfolding years by (rule keys_set)
  ultimately show ?thesis
    using base recs series_mean_present [of vs] series_mean_skips_missing [of xs] by blast
qed

theorem calculate_anomalies_spec_witness:
  "\<lparr>a_year = 2020, a_tempMed = Some (61 / 2), anomalia = Some (- 1)\<rparr>
     \<in> set (calculate_anomalies example_df ''Recife'' 2020 2021)
   \<and> \<lparr>a_year = 2021, a_tempMed = Some (71 / 2), anomalia = Some 4\<rparr>
     \<in> set (calculate_anomalies example_df ''Recife'' 2020 2021)
   \<and> series_mean (map tempMed (filter (\<lambda>r. cidade r = ''Recife'' \<and> year r = Some 2020) example_df)) = Some (61 / 2)
   \<and> series_mean (map tempMed (filter (\<lambda>r. cidade r = ''Recife'' \<and> year r = Some 2021) example_df)) = Some (71 / 2)
   \<and> baseline example_df ''Recife'' 2020 2021 = Some (63 / 2)
   \<and> (\<exists>base. baseline example_df ''Recife'' 2020 2021 = Some base \<and> Some (- 1) = Some (61 / 2 - base))
   \<and> (\<exists>base. baseline example_df ''Recife'' 2020 2021 = Some base \<and> Some 4 = Some (71 / 2 - base))
   \<and> map a_year (calculate_anomalies example_df ''Recife'' 2020 2021) = [2020, 2021]"
proof -
  let ?r0 = "\<lparr>a_year = 2020, a_tempMed = Some (61 / 2), anomalia = Some (- 1)\<rparr>"
  let ?r1 = "\<lparr>a_year = 2021, a_tempMed = Some (71 / 2), anomalia = Some 4\<rparr>"
  have mem0: "?r0 \<in> set (calculate_anomalies example_df ''Recife'' 2020 2021)"
    and mem1: "?r1 \<in> set (calculate_anomalies example_df ''Recife'' 2020 2021)"
    by (simp_all add: example_anomalies)
  note spec = calculate_anomalies_spec [of example_df "''Recife''" 2020 2021]
  from spec mem0
  have rec0: "a_tempMed ?r0 = series_mean (map tempMed (filter (\<lambda>r. cidade r = ''Recife'' \<and> year r = Some (a_year ?r0)) example_df))
       \<and> (\<forall>m. a_tempMed ?r0 = Some m \<longrightarrow>
             (\<exists>base. baseline example_df ''Recife'' 2020 2021 = Some base \<and> anomalia ?r0 = Some (m - base)))"
    by blast
  from spec mem1
  have rec1: "a_tempMed ?r1 = series_mean (map tempMed (filter (\<lambda>r. cidade r = ''Recife'' \<and> year r = Some (a_year ?r1)) example_df))
       \<and> (\<forall>m. a_tempMed ?r1 = Some m \<longrightarrow>
             (\<exists>base. baseline example_df ''Recife'' 2020 2021 = Some base \<and> anomalia ?r1 = Some (m - base)))"
    by blast
  from rec0 have d0: "\<exists>base. baseline example_df ''Recife'' 2020 2021 = Some base \<and> Some (- 1) = Some (61 / 2 - base)"
    by simp
  from rec1 have d1: "\<exists>base. baseline example_df ''Recife'' 2020 2021 = Some base \<and> Some 4 = Some (71 / 2 - base)"
    by simp
  from rec0 have m0: "series_mean (map tempMed (filter (\<lambda>r. cidade r = ''Recife'' \<and> year r = Some 2020) example_df)) = Some (61 / 2)"
    by simp
  from rec1 have m1: "series_mean (map tempMed (filter (\<lambda>r. cidade r = ''Recife'' \<and> year r = Some 2021) example_df)) = Some (71 / 2)"
    by simp
  have years: "map a_year (calculate_anomalies example_df ''Recife'' 2020 2021) = [2020, 2021]"
    by (simp add: example_anomalies)
  from mem0 mem1 m0 m1 example_baseline d0 d1 years show ?thesis
    by blast
qed

subsection \<open>The heat-wave flag\<close>

lemma upper_char_T: "upper_char c = CHR ''T'' \<Longrightarrow> c = CHR ''t'' \<or> c = CHR ''T''"
  by (simp add: upper_char_def split: if_splits)

lemma digit_char_set: "d < 10 \<Longrightarrow> digit_char d \<in> set ''0123456789''"
proof -
  assume "d < 10"
  then have "d < length ''0123456789''" by simp
  then show ?thesis
    unfolding digit_char_def by (rule nth_mem)
qed

lemma digits_set: "set (digits n) \<subseteq> set ''0123456789''"
proof (induction n rule: digits.induct)
  case (1 n)
  show ?case
  proof (cases "n < 10")
    case True
    then have "digits n = [digit_char n]"
      by (subst digits.simps) simp
    with True digit_char_set [of n] show ?thesis
      by simp
  next
    case False
    have "n mod 10 < 10" by simp
    then have last: "digit_char (n mod 10) \<in> set ''0123456789''" by (rule digit_char_set)
    from False have "digits n = digits (n div 10) @ [digit_char (n mod 10)]"
      by (subst digits.simps) simp
    with False 1 last show ?thesis
      by simp
  qed
qed

lemma digit_not_T: "ch \<in> set ''0123456789'' \<Longrightarrow> ch \<noteq> CHR ''t'' \<and> ch \<noteq> CHR ''T''"
  by auto

lemma digits_no_T: 
  assumes "ch \<in> set (digits n)" 
  shows "ch \<noteq> CHR ''t'' \<and> ch \<noteq> CHR ''T''"
proof -
  from digits_set assms have "ch \<in> set ''0123456789''" by (rule subsetD)
  then show ?thesis by (rule digit_not_T)
qed

lemma str_int_no_T: 
  assumes "ch \<in> set (str_int i)" 
  shows "ch \<noteq> CHR ''t'' \<and> ch \<noteq> CHR ''T''"
proof (cases "i < 0")
  case True
  with assms have "ch = CHR ''-'' \<or> ch \<in> set (digits (nat (- i)))"
    by (simp add: str_int_def)
  then show ?thesis using digits_no_T by auto
next
  case False
  with assms have "ch \<in> set (digits (nat i))"
    by (simp add: str_int_def)
  then show ?thesis by (rule digits_no_T)
qed

lemma upper_no_T:
  assumes "\<And>ch. ch \<in> set s \<Longrightarrow> ch \<noteq> CHR ''t'' \<and> ch \<noteq> CHR ''T''"
  shows "upper s \<noteq> ''TRUE''"
proof
  assume "upper s = ''TRUE''"
  then have "CHR ''T'' \<in> set (upper s)" by simp
  then obtain ch where ch: "ch \<in> set s" and "upper_char ch = CHR ''T''"
    by (auto simp: upper_def)
  then have "ch = CHR ''t'' \<or> ch = CHR ''T''" using upper_char_T by simp
  with assms [OF ch] show False by simp
qed

lemma hw_rule_PInt: "\<not> hw_rule (PInt i)"
  unfolding hw_rule_def py_str.simps by (rule upper_no_T) (rule str_int_no_T)

lemma exp_str_no_T:
  assumes "ch \<in> set (exp_str x)"
  shows "ch \<noteq> CHR ''t'' \<and> ch \<noteq> CHR ''T''"
proof -
  from assms have "ch = CHR ''-'' \<or> ch = CHR ''+'' \<or> ch = CHR ''0'' \<or> ch \<in> set (digits (nat \<bar>x\<bar>))"
    by (auto simp: exp_str_def Let_def split: if_splits)
  then show ?thesis using digits_no_T by auto
qed

lemma float_repr_chars:
  assumes "ch \<in> set (float_repr neg m e)"
  shows "ch = CHR ''-'' \<or> ch = CHR ''.'' \<or> ch = CHR ''e'' \<or> ch = CHR ''0''
         \<or> ch \<in> set (digits m) \<or> ch \<in> set (exp_str (int (length (digits m)) + e - 1))"
  using assms
  by (auto simp: float_repr_def Let_def split: if_splits dest: in_set_takeD in_set_dropD)

lemma float_repr_no_T:
  assumes "ch \<in> set (float_repr neg m e)"
  shows "ch \<noteq> CHR ''t'' \<and> ch \<noteq> CHR ''T''"
  using float_repr_chars [OF assms] digits_no_T exp_str_no_T by auto

lemma hw_rule_PFloat: "\<not> hw_rule (PFloat neg m e)"
  unfolding hw_rule_def py_str.simps by (rule upper_no_T) (rule float_repr_no_T)

lemma hw_rule_PInf: "\<not> hw_rule (PInf neg)"
  by (simp add: hw_rule_def upper_def upper_char_def)

lemma replicate_examples:
  "replicate 3 c = [c, c, c]"
  "replicate 15 c = [c, c, c, c, c, c, c, c, c, c, c, c, c, c, c]"
  by (simp_all add: eval_nat_numeral)

lemma float_repr_examples:
  "float_repr False 1 0 = ''1.0''"
  "float_repr False 0 0 = ''0.0''"
  "float_repr True 15 (- 1) = ''-1.5''"
  "float_repr False 123456 (- 3) = ''123.456''"
  "float_repr False 1 (- 4) = ''0.0001''"
  "float_repr False 1 (- 5) = ''1e-05''"
  "float_repr False 1 15 = ''1000000000000000.0''"
  "float_repr False 1 16 = ''1e+16''"
  "float_repr False 15 299 = ''1.5e+300''"
  by (simp_all add: float_repr_def exp_str_def digits.simps digit_char_def Let_def replicate_examples)

lemma upper_char_letters:
  "upper_char c = CHR ''T'' \<longleftrightarrow> c = CHR ''t'' \<or> c = CHR ''T''"
  "upper_char c = CHR ''R'' \<longleftrightarrow> c = CHR ''r'' \<or> c = CHR ''R''"
  "upper_char c = CHR ''U'' \<longleftrightarrow> c = CHR ''u'' \<or> c = CHR ''U''"
  "upper_char c = CHR ''E'' \<longleftrightarrow> c = CHR ''e'' \<or> c = CHR ''E''"
  by (auto simp: upper_char_def split: if_splits)

lemma hw_rule_PStr:
  "hw_rule (PStr s) \<longleftrightarrow>
     (\<exists>c1 c2 c3 c4. s = [c1, c2, c3, c4]
        \<and> (c1 = CHR ''t'' \<or> c1 = CHR ''T'') \<and> (c2 = CHR ''r'' \<or> c2 = CHR ''R'')
        \<and> (c3 = CHR ''u'' \<or> c3 = CHR ''U'') \<and> (c4 = CHR ''e'' \<or> c4 = CHR ''E''))"
proof -
  have "upper s = ''TRUE'' \<longleftrightarrow>
     (\<exists>c1 c2 c3 c4. s = [c1, c2, c3, c4]
        \<and> upper_char c1 = CHR ''T'' \<and> upper_char c2 = CHR ''R''
        \<and> upper_char c3 = CHR ''U'' \<and> upper_char c4 = CHR ''E'')"
    unfolding upper_def by (auto simp: map_eq_Cons_conv)
  then show ?thesis
    by (simp add: hw_rule_def upper_char_letters)
qed

lemma hw_rule_PBool: "hw_rule (PBool b) \<longleftrightarrow> b"
  by (simp add: hw_rule_def upper_def upper_char_def)

lemma hw_rule_PNaN: "\<not> hw_rule PNaN"
  by (simp add: hw_rule_def upper_def upper_char_def)

lemma load_row_fields:
  "index (load_row td r) = td (r_index r)"
  "cidade (load_row td r) = r_cidade r"
  "tempMed (load_row td r) = r_tempMed r"
  "isHW (load_row td r) = upper (py_str (r_isHW r))"
  "year (load_row td r) = map_option (\<lambda>t. d_year (ts_date t)) (td (r_index r))"
  by (simp_all add: load_row_def Let_def)

lemma filter_load_rows:
  "filter P (load_rows td raw) = load_rows td (filter (\<lambda>r. P (load_row td r)) raw)"
  by (simp add: load_rows_def filter_map comp_def)

lemma length_filter_load_rows:
  "length (filter P (load_rows td raw)) = length (filter (\<lambda>r. P (load_row td r)) raw)"
  unfolding filter_load_rows by (simp add: load_rows_def)

lemma dias_raw:
  "dias_ondas_calor (load_rows td raw) c =
     map (\<lambda>r. map_option ts_date (td (r_index r)))
       (filter (\<lambda>r. r_cidade r = c \<and> upper (py_str (r_isHW r)) = ''TRUE'') raw)"
  by (simp add: dias_ondas_calor_def filter_load_rows load_row_fields) (simp add: load_rows_def load_row_fields)

text \<open>
  Claim C4. The loader stores, for every raw flag, its string form in upper case; and
  every aggregation that reads the flag counts a row of the raw table exactly when that
  string is \<^verbatim>\<open>"TRUE"\<close>, which is the rule \<open>hw_rule\<close>. Under the rule the boolean true counts;
  the boolean false, every integer (so 0 and 1), every float (so \<^verbatim>\<open>1.0\<close> and \<^verbatim>\<open>0.0\<close>, the
  form in which a boolean or 0/1 column with an empty cell arrives), the infinities and
  the missing value do not; and a text counts exactly when it is \<^verbatim>\<open>true\<close> in any mix of
  upper and lower case.
\<close>

theorem heat_wave_flag_rule:
  "map isHW (load_rows td raw) = map (\<lambda>r. upper (py_str (r_isHW r))) raw
   \<and> dias_ondas_calor (load_rows td raw) c =
       map (\<lambda>r. map_option ts_date (td (r_index r)))
         (filter (\<lambda>r. r_cidade r = c \<and> hw_rule (r_isHW r)) raw)
   \<and> map snd (calculate_hw_monthly (load_rows td raw) c ano) =
       map (\<lambda>mo. length (filter (\<lambda>r. r_cidade r = c
                                   \<and> map_option (\<lambda>t. d_year (ts_date t)) (td (r_index r)) = Some ano
                                   \<and> hw_rule (r_isHW r)
                                   \<and> map_option (\<lambda>t. d_month (ts_date t)) (td (r_index r)) = Some mo) raw))
         months
   \<and> map snd (prepare_heatmap_data cs (load_rows td raw)) =
       map (\<lambda>k. length (filter (\<lambda>r. r_cidade r = fst k
                                  \<and> map_option (\<lambda>t. d_year (ts_date t)) (td (r_index r)) = Some (snd k)
                                  \<and> hw_rule (r_isHW r)) raw))
         (List.product cs [1981..2023])
   \<and> (hw_rule (PBool b) \<longleftrightarrow> b)
   \<and> \<not> hw_rule (PInt i)
   \<and> \<not> hw_rule (PFloat neg m e)
   \<and> \<not> hw_rule (PInf neg)
   \<and> \<not> hw_rule PNaN
   \<and> (hw_rule (PStr s) \<longleftrightarrow> upper s = ''TRUE'')
   \<and> (hw_rule (PStr s) \<longleftrightarrow>
        (\<exists>c1 c2 c3 c4. s = [c1, c2, c3, c4]
           \<and> (c1 = CHR ''t'' \<or> c1 = CHR ''T'') \<and> (c2 = CHR ''r'' \<or> c2 = CHR ''R'')
           \<and> (c3 = CHR ''u'' \<or> c3 = CHR ''U'') \<and> (c4 = CHR ''e'' \<or> c4 = CHR ''E'')))
   \<and> py_str (PFloat False 1 0) = ''1.0''
   \<and> py_str (PFloat False 0 0) = ''0.0''
   \<and> py_str (PInt 1) = ''1''
   \<and> py_str (PInt 0) = ''0''"
proof -
  let ?df = "load_rows td raw"
  have flags: "map isHW ?df = map (\<lambda>r. upper (py_str (r_isHW r))) raw"
    by (simp add: load_rows_def load_row_fields)
  have dias: "dias_ondas_calor ?df c =
       map (\<lambda>r. map_option ts_date (td (r_index r)))
         (filter (\<lambda>r. r_cidade r = c \<and> hw_rule (r_isHW r)) raw)"
    by (simp add: dias_raw hw_rule_def)
  have monthly: "map snd (calculate_hw_monthly ?df c ano) =
       map (\<lambda>mo. length (filter (\<lambda>r. r_cidade r = c
                                   \<and> map_option (\<lambda>t. d_year (ts_date t)) (td (r_index r)) = Some ano
                                   \<and> hw_rule (r_isHW r)
                                   \<and> map_option (\<lambda>t. d_month (ts_date t)) (td (r_index r)) = Some mo) raw))
         months"
    by (simp add: hw_monthly_table comp_def length_filter_load_rows load_row_fields hw_rule_def)
  have grid: "map snd (prepare_heatmap_data cs ?df) =
       map (\<lambda>k. length (filter (\<lambda>r. r_cidade r = fst k
                                  \<and> map_option (\<lambda>t. d_year (ts_date t)) (td (r_index r)) = Some (snd k)
                                  \<and> hw_rule (r_isHW r)) raw))
         (List.product cs year_span)"
    by (simp add: heatmap_table comp_def length_filter_load_rows load_row_fields hw_rule_def)
  have txt_rule: "hw_rule (PStr s) \<longleftrightarrow> upper s = ''TRUE''"
    by (simp add: hw_rule_def)
  have printed_float: "py_str (PFloat False 1 0) = ''1.0''" "py_str (PFloat False 0 0) = ''0.0''"
    unfolding py_str.simps by (rule float_repr_examples)+
  have printed_int: "py_str (PInt 1) = ''1''" "py_str (PInt 0) = ''0''"
    by (simp_all add: str_int_def digits.simps digit_char_def)
  note printed = printed_float printed_int
  note rule_values = hw_rule_PBool [of b] hw_rule_PInt [of i] hw_rule_PFloat [of neg m e]
    hw_rule_PInf [of neg] hw_rule_PNaN txt_rule hw_rule_PStr [of s]
  show ?thesis
    unfolding year_span_def [symmetric]
    using flags dias monthly grid rule_values printed by blast
qed

subsection \<open>The list of heat-wave dates\<close>

lemma ts_le_date: "ts_le a b \<Longrightarrow> date_le (ts_date a) (ts_date b)"
  by (auto simp: ts_le_def date_le_def)

lemma nat_cmp_date:
  "nat_cmp ts_le x y \<Longrightarrow> nat_cmp date_le (map_option ts_date x) (map_option ts_date y)"
  by (cases x; cases y) (simp_all add: ts_le_date)

lemma example_dias_natal:
  "dias_ondas_calor example_df ''Natal'' =
     [Some \<lparr>d_year = 2021, d_month = February, d_day = 2\<rparr>,
      Some \<lparr>d_year = 2021, d_month = February, d_day = 3\<rparr>]"
  by (simp add: example_df_rows dias_ondas_calor_def mk_ts_def)

lemma example_natal_ordered:
  "sorted_wrt (nat_cmp ts_le) (map index (filter (\<lambda>r. cidade r = ''Natal'') example_df))"
  by (simp add: example_df_rows ts_le_def date_key_def mk_ts_def)

text \<open>
  Claim C5. \<open>dias_ondas_calor\<close> returns, in table order, the date of the timestamp (the time
  of day dropped) of every row of the city whose flag is \<^verbatim>\<open>"TRUE"\<close>, one entry per such row;
  the dates returned are the dates of those rows and no others; and when the rows of the
  city are in non-decreasing order of their timestamps, the dates returned are in
  non-decreasing order.
\<close>

theorem dias_ondas_calor_dates:
  "dias_ondas_calor (load_rows td raw) c =
       map (\<lambda>r. map_option ts_date (td (r_index r)))
         (filter (\<lambda>r. r_cidade r = c \<and> upper (py_str (r_isHW r)) = ''TRUE'') raw)
   \<and> length (dias_ondas_calor df c) = length (filter (\<lambda>r. cidade r = c \<and> isHW r = ''TRUE'') df)
   \<and> set (dias_ondas_calor df c) =
       (\<lambda>r. map_option ts_date (index r)) ` {r \<in> set df. cidade r = c \<and> isHW r = ''TRUE''}
   \<and> (sorted_wrt (nat_cmp ts_le) (map index (filter (\<lambda>r. cidade r = c) df))
        \<longrightarrow> sorted_wrt (nat_cmp date_le) (dias_ondas_calor df c))"
proof -
  have len: "length (dias_ondas_calor df c) = length (filter (\<lambda>r. cidade r = c \<and> isHW r = ''TRUE'') df)"
    by (simp add: dias_ondas_calor_def)
  have dates: "set (dias_ondas_calor df c) =
       (\<lambda>r. map_option ts_date (index r)) ` {r \<in> set df. cidade r = c \<and> isHW r = ''TRUE''}"
    by (simp add: dias_ondas_calor_def)
  have ordered: "sorted_wrt (nat_cmp date_le) (dias_ondas_calor df c)"
    if asm: "sorted_wrt (nat_cmp ts_le) (map index (filter (\<lambda>r. cidade r = c) df))"
  proof -
    from asm have "sorted_wrt (\<lambda>r s. nat_cmp ts_le (index r) (index s)) (filter (\<lambda>r. cidade r = c) df)"
      by (simp add: sorted_wrt_map)
    then have "sorted_wrt (\<lambda>r s. nat_cmp ts_le (index r) (index s))
                 (filter (\<lambda>r. isHW r = ''TRUE'') (filter (\<lambda>r. cidade r = c) df))"
      by (rule sorted_wrt_filter)
    then have "sorted_wrt (\<lambda>r s. nat_cmp date_le (map_option ts_date (index r)) (map_option ts_date (index s)))
                 (filter (\<lambda>r. isHW r = ''TRUE'') (filter (\<lambda>r. cidade r = c) df))"
      by (rule sorted_wrt_mono_rel [rotated]) (simp add: nat_cmp_date)
    then show ?thesis
      by (simp add: dias_ondas_calor_def sorted_wrt_map conj_commute)
  qed
  from dias_raw [of td raw c] len dates ordered show ?thesis
    by blast
qed

theorem dias_ondas_calor_dates_witness:
  "sorted_wrt (nat_cmp ts_le) (map index (filter (\<lambda>r. cidade r = ''Natal'') example_df))
   \<and> sorted_wrt (nat_cmp date_le) (dias_ondas_calor example_df ''Natal'')
   \<and> dias_ondas_calor example_df ''Natal'' =
       [Some \<lparr>d_year = 2021, d_month = February, d_day = 2\<rparr>,
        Some \<lparr>d_year = 2021, d_month = February, d_day = 3\<rparr>]"
  using dias_ondas_calor_dates [of example_to_datetime example_raw "''Natal''" example_df]
    example_natal_ordered example_dias_natal
  by blast

subsection \<open>Rows whose timestamp does not parse\<close>

lemma load_rows_drop_unparseable:
  assumes "\<And>r. P (load_row td r) \<Longrightarrow> td (r_index r) \<noteq> None"
  shows "filter P (load_rows td (drop_unparseable td raw)) = filter P (load_rows td raw)"
proof -
  have "filter (\<lambda>r. P (load_row td r)) (drop_unparseable td raw) = filter (\<lambda>r. P (load_row td r)) raw"
    unfolding drop_unparseable_def filter_filter
    by (rule filter_cong) (use assms in auto)
  then show ?thesis
    by (simp add: filter_load_rows)
qed

lemma anomalies_dff_drop:
  "anomalies_dff (load_rows td (drop_unparseable td raw)) c a b = anomalies_dff (load_rows td raw) c a b"
  unfolding anomalies_dff_eq
  by (rule load_rows_drop_unparseable) (auto simp: load_row_fields year_between_def split: option.splits)

lemma hw_monthly_dff_drop:
  "hw_monthly_dff (load_rows td (drop_unparseable td raw)) c ano = hw_monthly_dff (load_rows td raw) c ano"
  unfolding hw_monthly_dff_def
  by (rule load_rows_drop_unparseable) (auto simp: load_row_fields)

lemma count_list_map_None:
  "count_list (map f xs) None = length (filter (\<lambda>x. f x = None) xs)"
  by (induction xs) simp_all

text \<open>
  The claim C6 fails for \<open>dias_ondas_calor\<close>: the fifth row of the example table has a
  timestamp that does not parse, and it is a row of Recife with the flag \<^verbatim>\<open>"TRUE"\<close>; the
  list of dates has an entry for it, so dropping the row changes the list.
\<close>

theorem unparseable_row_kept_counterexample:
  "dias_ondas_calor (load_rows example_to_datetime example_raw) ''Recife''
     \<noteq> dias_ondas_calor (load_rows example_to_datetime (drop_unparseable example_to_datetime example_raw)) ''Recife''"
proof -
  have "length (dias_ondas_calor (load_rows example_to_datetime example_raw) ''Recife'') = 4"
    by (simp add: dias_raw example_raw_def upper_def upper_char_def str_int_def digits.simps digit_char_def)
  moreover have "length (dias_ondas_calor (load_rows example_to_datetime (drop_unparseable example_to_datetime example_raw)) ''Recife'') = 3"
    by (simp add: dias_raw drop_unparseable_def example_raw_def example_to_datetime_def
        upper_def upper_char_def str_int_def digits.simps digit_char_def)
  ultimately show ?thesis by auto
qed

text \<open>
  Claim C6, amended. A timestamp that does not parse becomes a missing timestamp and the
  loader does not raise (on a sheet that has the columns it reads, it returns the loaded
  table whatever the timestamps are); the rows concerned are excluded from \<open>calculate_anomalies\<close> and
  \<open>calculate_hw_monthly\<close>, whose results are those of the table without them; they are not
  excluded from \<open>dias_ondas_calor\<close>, which returns one missing date for each of them that
  is a row of the city with the flag \<^verbatim>\<open>"TRUE"\<close>.
\<close>

theorem unparseable_rows:
  "(''index'' \<in> set cols \<and> ''isHW'' \<in> set cols
      \<longrightarrow> load_data td (Inr \<lparr>sheet_columns = cols, sheet_rows = raw\<rparr>) = Inr (load_rows td raw))
   \<and> map index (load_rows td raw) = map (\<lambda>r. td (r_index r)) raw
   \<and> calculate_anomalies (load_rows td (drop_unparseable td raw)) c a b =
       calculate_anomalies (load_rows td raw) c a b
   \<and> calculate_hw_monthly (load_rows td (drop_unparseable td raw)) c ano =
       calculate_hw_monthly (load_rows td raw) c ano
   \<and> count_list (dias_ondas_calor (load_rows td raw) c) None =
       length (filter (\<lambda>r. td (r_index r) = None \<and> r_cidade r = c \<and> hw_rule (r_isHW r)) raw)"
proof -
  have loaded: "load_data td (Inr \<lparr>sheet_columns = cols, sheet_rows = raw\<rparr>) = Inr (load_rows td raw)"
    if "''index'' \<in> set cols \<and> ''isHW'' \<in> set cols"
    using that by (simp add: load_data_def)
  have idx: "map index (load_rows td raw) = map (\<lambda>r. td (r_index r)) raw"
    by (simp add: load_rows_def load_row_fields)
  have anom: "calculate_anomalies (load_rows td (drop_unparseable td raw)) c a b =
       calculate_anomalies (load_rows td raw) c a b"
    by (simp add: calculate_anomalies_def baseline_def anomalies_dff_drop)
  have monthly: "calculate_hw_monthly (load_rows td (drop_unparseable td raw)) c ano =
       calculate_hw_monthly (load_rows td raw) c ano"
    by (simp add: calculate_hw_monthly_def hw_monthly_dff_drop)
  have "count_list (dias_ondas_calor (load_rows td raw) c) None =
       length (filter (\<lambda>r. map_option ts_date (td (r_index r)) = None)
                 (filter (\<lambda>r. r_cidade r = c \<and> upper (py_str (r_isHW r)) = ''TRUE'') raw))"
    unfolding dias_raw by (rule count_list_map_None)
  also have "\<dots> = length (filter (\<lambda>r. td (r_index r) = None \<and> r_cidade r = c \<and> hw_rule (r_isHW r)) raw)"
    by (simp add: hw_rule_def conj_commute conj_left_commute)
  finally show ?thesis
    using loaded idx anom monthly by blast
qed

theorem unparseable_rows_witness:
  "''index'' \<in> set example_columns \<and> ''isHW'' \<in> set example_columns
   \<and> load_data example_to_datetime (Inr \<lparr>sheet_columns = example_columns, sheet_rows = example_raw\<rparr>)
       = Inr example_df
   \<and> example_to_datetime ''n/a'' = None
   \<and> index (example_df ! 4) = None
   \<and> count_list (dias_ondas_calor example_df ''Recife'') None = 1"
proof -
  have cols: "''index'' \<in> set example_columns \<and> ''isHW'' \<in> set example_columns"
    by (simp add: example_columns_def)
  from unparseable_rows [of example_columns example_to_datetime example_raw "''Recife''" 2020 2021 2020] cols
  have "load_data example_to_datetime (Inr \<lparr>sheet_columns = example_columns, sheet_rows = example_raw\<rparr>)
       = Inr (load_rows example_to_datetime example_raw)"
    by blast
  then have loaded: "load_data example_to_datetime (Inr \<lparr>sheet_columns = example_columns, sheet_rows = example_raw\<rparr>)
       = Inr example_df"
    by (simp add: example_df_def)
  have cell: "example_to_datetime ''n/a'' = None"
    by (simp add: example_to_datetime_def)
  have row: "index (example_df ! 4) = None"
    by (simp add: example_df_rows)
  have entry: "count_list (dias_ondas_calor example_df ''Recife'') None = 1"
    by (simp add: example_df_rows dias_ondas_calor_def)
  from cols loaded cell row entry show ?thesis
    by blast
qed

subsection \<open>Selections that match no row\<close>

lemma filter_conj_empty: "filter P xs = [] \<Longrightarrow> filter (\<lambda>x. P x \<and> Q x) xs = []"
  by (simp add: filter_empty_conv)

lemma series_mean_Nil: "series_mean [] = None"
  by (simp add: series_mean_def)

lemma example_not_hw:
  "filter (\<lambda>r. isHW r = ''TRUE'')
     [\<lparr>index = Some (mk_ts 2021 February 1), cidade = ''Recife'', tempMed = Some (71 / 2),
       isHW = ''FALSE'', year = Some 2021, month = Some 2\<rparr>] = []"
  by simp

text \<open>
  Claim C7. When no row of the table matches the city and the year range,
  \<open>calculate_anomalies\<close> returns the empty list and the baseline is missing
  (not-a-number). Likewise \<open>calculate_hw_monthly\<close> returns its 12 records with count 0,
  \<open>dias_ondas_calor\<close> the empty list and \<open>prepare_heatmap_data\<close> its grid with count 0
  when their selections match no row. No aggregation has a failing branch: each one is a
  total function of the table.
\<close>

theorem empty_selection:
  "(filter (\<lambda>r. cidade r = c \<and> year_between a b (year r)) df = []
      \<longrightarrow> calculate_anomalies df c a b = [] \<and> baseline df c a b = None)
   \<and> (filter (\<lambda>r. cidade r = c \<and> year r = Some ano \<and> isHW r = ''TRUE'') df = []
      \<longrightarrow> calculate_hw_monthly df c ano = map (\<lambda>m. (m, 0)) all_months)
   \<and> (filter (\<lambda>r. cidade r = c \<and> isHW r = ''TRUE'') df = []
      \<longrightarrow> dias_ondas_calor df c = [])
   \<and> (filter (\<lambda>r. isHW r = ''TRUE'') df = []
      \<longrightarrow> prepare_heatmap_data cs df = map (\<lambda>k. (k, 0)) (List.product cs [1981..2023]))"
proof -
  have anom: "calculate_anomalies df c a b = [] \<and> baseline df c a b = None"
    if "filter (\<lambda>r. cidade r = c \<and> year_between a b (year r)) df = []"
  proof -
    from that have "anomalies_dff df c a b = []"
      by (simp add: anomalies_dff_eq)
    then show ?thesis
      by (simp add: anomalies_table baseline_def series_mean_Nil)
  qed
  have monthly: "calculate_hw_monthly df c ano = map (\<lambda>m. (m, 0)) all_months"
    if "filter (\<lambda>r. cidade r = c \<and> year r = Some ano \<and> isHW r = ''TRUE'') df = []"
  proof -
    from that have "hw_monthly_dff df c ano = []"
      by (simp add: hw_monthly_dff_def)
    then show ?thesis
      by (simp add: calculate_hw_monthly_def count_table)
  qed
  have dias: "dias_ondas_calor df c = []"
    if "filter (\<lambda>r. cidade r = c \<and> isHW r = ''TRUE'') df = []"
    using that by (simp add: dias_ondas_calor_def)
  have grid: "prepare_heatmap_data cs df = map (\<lambda>k. (k, 0)) (List.product cs year_span)"
    if "filter (\<lambda>r. isHW r = ''TRUE'') df = []"
    using that by (simp add: prepare_heatmap_data_def count_table all_combinations_def)
  show ?thesis
    unfolding year_span_def [symmetric]
    using anom monthly dias grid by blast
qed

theorem empty_selection_witness:
  "calculate_anomalies example_df ''Olinda'' 2020 2021 = []
   \<and> baseline example_df ''Olinda'' 2020 2021 = None
   \<and> calculate_hw_monthly example_df ''Olinda'' 2020 = map (\<lambda>m. (m, 0)) all_months
   \<and> dias_ondas_calor example_df ''Olinda'' = []
   \<and> prepare_heatmap_data [''Natal'', ''Recife'']
       [\<lparr>index = Some (mk_ts 2021 February 1), cidade = ''Recife'', tempMed = Some (71 / 2),
         isHW = ''FALSE'', year = Some 2021, month = Some 2\<rparr>]
       = map (\<lambda>k. (k, 0)) (List.product [''Natal'', ''Recife''] [1981..2023])"
proof -
  have no_city: "filter (\<lambda>r. cidade r = ''Olinda'' \<and> Q r) example_df = []" for Q
    by (simp add: example_df_rows)
  from empty_selection [of "''Olinda''" 2020 2021 example_df 2020 "[''Natal'', ''Recife'']"]
    no_city [of "\<lambda>r. year_between 2020 2021 (year r)"]
    no_city [of "\<lambda>r. year r = Some 2020 \<and> isHW r = ''TRUE''"]
    no_city [of "\<lambda>r. isHW r = ''TRUE''"]
  have olinda: "calculate_anomalies example_df ''Olinda'' 2020 2021 = []
      \<and> baseline example_df ''Olinda'' 2020 2021 = None
      \<and> calculate_hw_monthly example_df ''Olinda'' 2020 = map (\<lambda>m. (m, 0)) all_months
      \<and> dias_ondas_calor example_df ''Olinda'' = []"
    by blast
  from empty_selection [of "''Recife''" 2020 2021
      "[\<lparr>index = Some (mk_ts 2021 February 1), cidade = ''Recife'', tempMed = Some (71 / 2),
         isHW = ''FALSE'', year = Some 2021, month = Some 2\<rparr>]" 2020 "[''Natal'', ''Recife'']"]
    example_not_hw
  have "prepare_heatmap_data [''Natal'', ''Recife'']
       [\<lparr>index = Some (mk_ts 2021 February 1), cidade = ''Recife'', tempMed = Some (71 / 2),
         isHW = ''FALSE'', year = Some 2021, month = Some 2\<rparr>]
       = map (\<lambda>k. (k, 0)) (List.product [''Natal'', ''Recife''] [1981..2023])"
    by blast
  with olinda show ?thesis by blast
qed

subsection \<open>The loader on an unreadable or empty resource\<close>

text \<open>
  The claim C8 fails for a readable resource with a header row and no data rows: the
  loader returns the empty table.
\<close>

theorem load_data_empty_counterexample:
  "load_data example_to_datetime (Inr \<lparr>sheet_columns = example_columns, sheet_rows = []\<rparr>) = Inr []
   \<and> \<not> isl (load_data example_to_datetime (Inr \<lparr>sheet_columns = example_columns, sheet_rows = []\<rparr>))"
  by (simp add: load_data_def load_rows_def example_columns_def)

lemma load_data_fails_iff:
  "isl (load_data td res) \<longleftrightarrow>
     (case res of
        Inl e \<Rightarrow> True
      | Inr df \<Rightarrow> ''index'' \<notin> set (sheet_columns df) \<or> ''isHW'' \<notin> set (sheet_columns df))"
proof (cases res)
  case (Inl e)
  then show ?thesis by (simp add: load_data_def)
next
  case (Inr df)
  show ?thesis
  proof (cases "''index'' \<in> set (sheet_columns df)")
    case False
    with Inr show ?thesis by (simp add: load_data_def)
  next
    case True
    with Inr show ?thesis by (cases "''isHW'' \<in> set (sheet_columns df)") (simp_all add: load_data_def)
  qed
qed

text \<open>
  Claim C8, amended. The loader fails exactly when the resource is unreadable (with the
  read error) or is readable without the column \<^verbatim>\<open>index\<close> or the column \<^verbatim>\<open>isHW\<close> (with the
  \<^verbatim>\<open>KeyError\<close> of the first one missing, as on a blank sheet). The number of rows plays no
  part: on a readable resource with both columns the loader returns a table with one row
  per row read, and the empty table when there are no rows.
\<close>

theorem load_data_outcomes:
  "(isl (load_data td res) \<longleftrightarrow>
      (case res of
         Inl e \<Rightarrow> True
       | Inr df \<Rightarrow> ''index'' \<notin> set (sheet_columns df) \<or> ''isHW'' \<notin> set (sheet_columns df)))
   \<and> load_data td (Inl err) = Inl err
   \<and> (''index'' \<notin> set cols
        \<longrightarrow> load_data td (Inr \<lparr>sheet_columns = cols, sheet_rows = raw\<rparr>) = Inl (ColumnKeyError ''index''))
   \<and> (''index'' \<in> set cols \<and> ''isHW'' \<notin> set cols
        \<longrightarrow> load_data td (Inr \<lparr>sheet_columns = cols, sheet_rows = raw\<rparr>) = Inl (ColumnKeyError ''isHW''))
   \<and> (''index'' \<in> set cols \<and> ''isHW'' \<in> set cols
        \<longrightarrow> (\<exists>df. load_data td (Inr \<lparr>sheet_columns = cols, sheet_rows = raw\<rparr>) = Inr df
                  \<and> length df = length raw
                  \<and> map cidade df = map r_cidade raw)
            \<and> load_data td (Inr \<lparr>sheet_columns = cols, sheet_rows = []\<rparr>) = Inr [])
   \<and> load_data td (Inr \<lparr>sheet_columns = [], sheet_rows = []\<rparr>) = Inl (ColumnKeyError ''index'')"
proof -
  have no_index: "load_data td (Inr \<lparr>sheet_columns = cols, sheet_rows = raw\<rparr>) = Inl (ColumnKeyError ''index'')"
    if "''index'' \<notin> set cols"
    using that by (simp add: load_data_def)
  have no_flag: "load_data td (Inr \<lparr>sheet_columns = cols, sheet_rows = raw\<rparr>) = Inl (ColumnKeyError ''isHW'')"
    if "''index'' \<in> set cols \<and> ''isHW'' \<notin> set cols"
    using that by (simp add: load_data_def)
  have loads: "(\<exists>df. load_data td (Inr \<lparr>sheet_columns = cols, sheet_rows = raw\<rparr>) = Inr df
                  \<and> length df = length raw \<and> map cidade df = map r_cidade raw)
            \<and> load_data td (Inr \<lparr>sheet_columns = cols, sheet_rows = []\<rparr>) = Inr []"
    if "''index'' \<in> set cols \<and> ''isHW'' \<in> set cols"
    using that by (simp add: load_data_def load_rows_def load_row_fields)
  have blank: "load_data td (Inr \<lparr>sheet_columns = [], sheet_rows = []\<rparr>) = Inl (ColumnKeyError ''index'')"
    by (simp add: load_data_def)
  have unreadable: "load_data td (Inl err) = Inl err"
    by (simp add: load_data_def)
  from load_data_fails_iff [of td res] unreadable no_index no_flag loads blank show ?thesis
    by blast
qed

theorem load_data_outcomes_witness:
  "''index'' \<in> set example_columns \<and> ''isHW'' \<in> set example_columns
   \<and> load_data example_to_datetime (Inr \<lparr>sheet_columns = example_columns, sheet_rows = []\<rparr>) = Inr []
   \<and> (\<exists>df. load_data example_to_datetime (Inr \<lparr>sheet_columns = example_columns, sheet_rows = example_raw\<rparr>) = Inr df
          \<and> length df = length example_raw)
   \<and> ''index'' \<notin> set [''cidade'', ''isHW'']
   \<and> load_data example_to_datetime (Inr \<lparr>sheet_columns = [''cidade'', ''isHW''], sheet_rows = example_raw\<rparr>)
       = Inl (ColumnKeyError ''index'')
   \<and> ''isHW'' \<notin> set [''index'', ''cidade'']
   \<and> load_data example_to_datetime (Inr \<lparr>sheet_columns = [''index'', ''cidade''], sheet_rows = example_raw\<rparr>)
       = Inl (ColumnKeyError ''isHW'')"
proof -
  have cols: "''index'' \<in> set example_columns \<and> ''isHW'' \<in> set example_columns"
    by (simp add: example_columns_def)
  have c1: "''index'' \<notin> set [''cidade'', ''isHW'']"
    and c2: "''index'' \<in> set [''index'', ''cidade''] \<and> ''isHW'' \<notin> set [''index'', ''cidade'']"
    by simp_all
  from load_data_outcomes [of example_to_datetime "Inr \<lparr>sheet_columns = example_columns, sheet_rows = []\<rparr>"
      ReadError example_columns example_raw] cols
  have full: "(\<exists>df. load_data example_to_datetime (Inr \<lparr>sheet_columns = example_columns, sheet_rows = example_raw\<rparr>) = Inr df
          \<and> length df = length example_raw)
      \<and> load_data example_to_datetime (Inr \<lparr>sheet_columns = example_columns, sheet_rows = []\<rparr>) = Inr []"
    by blast
  from load_data_outcomes [of example_to_datetime "Inr \<lparr>sheet_columns = example_columns, sheet_rows = []\<rparr>"
      ReadError "[''cidade'', ''isHW'']" example_raw] c1
  have m1: "load_data example_to_datetime (Inr \<lparr>sheet_columns = [''cidade'', ''isHW''], sheet_rows = example_raw\<rparr>)
       = Inl (ColumnKeyError ''index'')"
    by blast
  from load_data_outcomes [of example_to_datetime "Inr \<lparr>sheet_columns = example_columns, sheet_rows = []\<rparr>"
      ReadError "[''index'', ''cidade'']" example_raw] c2
  have m2: "load_data example_to_datetime (Inr \<lparr>sheet_columns = [''index'', ''cidade''], sheet_rows = example_raw\<rparr>)
       = Inl (ColumnKeyError ''isHW'')"
    by blast
  from cols full c1 m1 c2 m2 show ?thesis
    by blast
qed

subsection \<open>Anomalies are not centred\<close>

text \<open>
  Claim C10. There is a table, a city and a year range for which the anomalies returned
  by \<open>calculate_anomalies\<close> are all present and do not add up to zero: in the example
  table Recife has four rows in 2020 and one in 2021, the anomalies are \<open>-1\<close> and \<open>4\<close>.
\<close>

theorem anomalies_not_centred:
  "\<exists>(td :: string \<Rightarrow> timestamp option) raw c a b xs.
      those (map anomalia (calculate_anomalies (load_rows td raw) c a b)) = Some xs
      \<and> sum_list xs \<noteq> 0"
proof -
  have "those (map anomalia (calculate_anomalies (load_rows example_to_datetime example_raw) ''Recife'' 2020 2021))
          = Some [- 1, 4]"
    by (simp add: example_anomalies [unfolded example_df_def])
  moreover have "sum_list [- 1, 4 :: rat] \<noteq> 0"
    by simp
  ultimately show ?thesis by blast
qed

subsection \<open>Determinism and the table as a read-only object\<close>

lemma zip_map_same: "zip xs (map f xs) = map (\<lambda>x. (x, f x)) xs"
  by (induction xs) simp_all

lemma count_table_column:
  "fillna 0 (merge_left left (groupby_size snd (zip xs (map f xs)))) =
   fillna 0 (merge_left left (groupby_size f xs))"
  by (simp add: count_table zip_map_same filter_map comp_def)

lemma getitem_mask_result:
  "a < length (frames s) \<Longrightarrow>
     frame_rows (frames (snd (getitem_mask P a s)) ! fst (getitem_mask P a s)) = filter P (frame_rows (frames s ! a))"
  by (simp add: getitem_mask_def alloc_def Let_def)

lemma getitem_mask_state:
  "snd (getitem_mask P a s) = s\<lparr>frames := frames s @
      [\<lparr> frame_rows = filter P (frame_rows (frames s ! a)),
         mes_col = map_option (\<lambda>col. map snd (filter (\<lambda>p. P (fst p)) (zip (frame_rows (frames s ! a)) col)))
                          (mes_col (frames s ! a)) \<rparr>]\<rparr>"
  "fst (getitem_mask P a s) = length (frames s)"
  by (simp_all add: getitem_mask_def alloc_def Let_def)

lemma preserved_getitem_mask: "preserved s (snd (getitem_mask P a s))"
  by (simp add: getitem_mask_state preserved_def)

lemma preserved_nth:
  "preserved s s' \<Longrightarrow> a < length (frames s) \<Longrightarrow> frames s' ! a = frames s ! a"
  by (metis nth_take preserved_def)

lemma preserved_length:
  "preserved s s' \<Longrightarrow> a < length (frames s) \<Longrightarrow> a < length (frames s')"
  by (metis preserved_def length_take min_less_iff_conj)

lemma anomalies_st_result:
  "df < length (frames s) \<Longrightarrow>
     fst (calculate_anomalies_st df c a b s) = calculate_anomalies (frame_rows (frames s ! df)) c a b"
  by (simp add: calculate_anomalies_st_def calculate_anomalies_def baseline_def anomalies_dff_def
      case_prod_unfold Let_def getitem_mask_result)

lemma anomalies_st_state: "preserved s (snd (calculate_anomalies_st df c a b s))"
  by (simp add: calculate_anomalies_st_def case_prod_unfold Let_def preserved_getitem_mask)

lemma dias_st_result:
  "df < length (frames s) \<Longrightarrow> fst (dias_ondas_calor_st df c s) = dias_ondas_calor (frame_rows (frames s ! df)) c"
  by (simp add: dias_ondas_calor_st_def dias_ondas_calor_def case_prod_unfold Let_def getitem_mask_result)

lemma dias_st_state: "preserved s (snd (dias_ondas_calor_st df c s))"
  by (simp add: dias_ondas_calor_st_def case_prod_unfold Let_def preserved_getitem_mask)

lemma heatmap_st_result:
  "df < length (frames s) \<Longrightarrow>
     fst (prepare_heatmap_data_st df s) = prepare_heatmap_data (g_cidades s) (frame_rows (frames s ! df))"
  by (simp add: prepare_heatmap_data_st_def prepare_heatmap_data_def case_prod_unfold Let_def
      getitem_mask_result) (simp add: getitem_mask_state)

lemma heatmap_st_state: "preserved s (snd (prepare_heatmap_data_st df s))"
  by (simp add: prepare_heatmap_data_st_def case_prod_unfold Let_def preserved_getitem_mask)

lemma hw_monthly_st_both:
  assumes "df < length (frames s)"
  shows "fst (calculate_hw_monthly_st df c ano s) = Inr (calculate_hw_monthly (frame_rows (frames s ! df)) c ano)"
    and "preserved s (snd (calculate_hw_monthly_st df c ano s))"
proof -
  let ?P = "\<lambda>r. cidade r = c \<and> year r = Some ano \<and> isHW r = ''TRUE''"
  let ?f = "frames s ! df"
  let ?sel = "\<lparr> frame_rows = filter ?P (frame_rows ?f),
         mes_col = map_option (\<lambda>col. map snd (filter (\<lambda>p. ?P (fst p)) (zip (frame_rows ?f) col))) (mes_col ?f) \<rparr>"
  let ?n = "length (frames s)"
  let ?s3 = "s\<lparr>frames := frames s @ [?sel, ?sel\<lparr>mes_col := Some (map mes_of (filter ?P (frame_rows ?f)))\<rparr>]\<rparr>"
  have run: "calculate_hw_monthly_st df c ano s =
      (Inr (fillna 0 (merge_left all_months
              (groupby_size snd (zip (filter ?P (frame_rows ?f)) (map mes_of (filter ?P (frame_rows ?f))))))), ?s3)"
    by (simp add: calculate_hw_monthly_st_def getitem_mask_def copy_def alloc_def setitem_mes_def
        Let_def nth_append list_update_append)
  show "fst (calculate_hw_monthly_st df c ano s) = Inr (calculate_hw_monthly (frame_rows ?f) c ano)"
    by (simp add: run count_table_column calculate_hw_monthly_def hw_monthly_dff_def)
  show "preserved s (snd (calculate_hw_monthly_st df c ano s))"
    by (simp add: run preserved_def)
qed

text \<open>
  Claim C9. Run on a store in which \<open>df\<close> refers to an allocated frame, each of the four
  aggregations returns what the corresponding function of the table's rows (and, for the
  grid, of \<^verbatim>\<open>cidades\<close>) returns, whatever else the store holds; the store after the call has
  every object that existed before unchanged, the table among them, and the same
  \<^verbatim>\<open>cidades\<close>; and a second invocation with the same arguments, run on the store the first
  one left, returns the same output.
\<close>

theorem aggregations_stateless:
  assumes "df < length (frames s)"
  shows
  "fst (calculate_anomalies_st df c a b s) = calculate_anomalies (frame_rows (frames s ! df)) c a b
   \<and> fst (calculate_hw_monthly_st df c ano s) = Inr (calculate_hw_monthly (frame_rows (frames s ! df)) c ano)
   \<and> fst (dias_ondas_calor_st df c s) = dias_ondas_calor (frame_rows (frames s ! df)) c
   \<and> fst (prepare_heatmap_data_st df s) = prepare_heatmap_data (g_cidades s) (frame_rows (frames s ! df))
   \<and> preserved s (snd (calculate_anomalies_st df c a b s))
   \<and> preserved s (snd (calculate_hw_monthly_st df c ano s))
   \<and> preserved s (snd (dias_ondas_calor_st df c s))
   \<and> preserved s (snd (prepare_heatmap_data_st df s))
   \<and> fst (calculate_anomalies_st df c a b (snd (calculate_anomalies_st df c a b s))) =
       fst (calculate_anomalies_st df c a b s)
   \<and> fst (calculate_hw_monthly_st df c ano (snd (calculate_hw_monthly_st df c ano s))) =
       fst (calculate_hw_monthly_st df c ano s)
   \<and> fst (dias_ondas_calor_st df c (snd (dias_ondas_calor_st df c s))) =
       fst (dias_ondas_calor_st df c s)
   \<and> fst (prepare_heatmap_data_st df (snd (prepare_heatmap_data_st df s))) =
       fst (prepare_heatmap_data_st df s)"
proof -
  note results = anomalies_st_result dias_st_result heatmap_st_result hw_monthly_st_both(1)
  have again: "df < length (frames s') \<and> frames s' ! df = frames s ! df \<and> g_cidades s' = g_cidades s"
    if "preserved s s'" for s'
    using that assms preserved_nth preserved_length by (simp add: preserved_def)
  have p1: "preserved s (snd (calculate_anomalies_st df c a b s))"
    by (rule anomalies_st_state)
  have p2: "preserved s (snd (calculate_hw_monthly_st df c ano s))"
    using assms by (rule hw_monthly_st_both(2))
  have p3: "preserved s (snd (dias_ondas_calor_st df c s))"
    by (rule dias_st_state)
  have p4: "preserved s (snd (prepare_heatmap_data_st df s))"
    by (rule heatmap_st_state)
  have r1: "fst (calculate_anomalies_st df c a b (snd (calculate_anomalies_st df c a b s))) =
       fst (calculate_anomalies_st df c a b s)"
    using again [OF p1] assms by (simp add: results)
  have r2: "fst (calculate_hw_monthly_st df c ano (snd (calculate_hw_monthly_st df c ano s))) =
       fst (calculate_hw_monthly_st df c ano s)"
    using again [OF p2] assms by (simp add: results)
  have r3: "fst (dias_ondas_calor_st df c (snd (dias_ondas_calor_st df c s))) =
       fst (dias_ondas_calor_st df c s)"
    using again [OF p3] assms by (simp add: results)
  have r4: "fst (prepare_heatmap_data_st df (snd (prepare_heatmap_data_st df s))) =
       fst (prepare_heatmap_data_st df s)"
    using again [OF p4] assms by (simp add: results)
  from assms p1 p2 p3 p4 r1 r2 r3 r4 show ?thesis
    by (simp add: results)
qed

theorem aggregations_stateless_witness:
  "0 < length (frames example_state)
   \<and> fst (dias_ondas_calor_st 0 ''Natal'' example_state) =
       [Some \<lparr>d_year = 2021, d_month = February, d_day = 2\<rparr>,
        Some \<lparr>d_year = 2021, d_month = February, d_day = 3\<rparr>]
   \<and> fst (calculate_anomalies_st 0 ''Recife'' 2020 2021 example_state) =
       [\<lparr>a_year = 2020, a_tempMed = Some (61 / 2), anomalia = Some (- 1)\<rparr>,
        \<lparr>a_year = 2021, a_tempMed = Some (71 / 2), anomalia = Some 4\<rparr>]
   \<and> preserved example_state (snd (calculate_hw_monthly_st 0 ''Recife'' 2020 example_state))
   \<and> frames (snd (calculate_hw_monthly_st 0 ''Recife'' 2020 example_state)) ! 0 =
       \<lparr>frame_rows = example_df, mes_col = None\<rparr>"
proof -
  have alloc0: "0 < length (frames example_state)"
    by (simp add: example_state_def)
  have table: "frames example_state ! 0 = \<lparr>frame_rows = example_df, mes_col = None\<rparr>"
    by (simp add: example_state_def)
  note inst = aggregations_stateless [OF alloc0, of "''Recife''" 2020 2021 2020]
  note inst_natal = aggregations_stateless [OF alloc0, of "''Natal''" 2020 2021 2020]
  from inst have kept: "preserved example_state (snd (calculate_hw_monthly_st 0 ''Recife'' 2020 example_state))"
    by blast
  from preserved_nth [OF kept alloc0] table
  have same: "frames (snd (calculate_hw_monthly_st 0 ''Recife'' 2020 example_state)) ! 0 =
       \<lparr>frame_rows = example_df, mes_col = None\<rparr>"
    by simp
  from inst_natal have "fst (dias_ondas_calor_st 0 ''Natal'' example_state) =
      dias_ondas_calor (frame_rows (frames example_state ! 0)) ''Natal''"
    by blast
  then have dias: "fst (dias_ondas_calor_st 0 ''Natal'' example_state) =
       [Some \<lparr>d_year = 2021, d_month = February, d_day = 2\<rparr>,
        Some \<lparr>d_year = 2021, d_month = February, d_day = 3\<rparr>]"
    by (simp add: table example_dias_natal)
  from inst have "fst (calculate_anomalies_st 0 ''Recife'' 2020 2021 example_state) =
      calculate_anomalies (frame_rows (frames example_state ! 0)) ''Recife'' 2020 2021"
    by blast
  then have anom: "fst (calculate_anomalies_st 0 ''Recife'' 2020 2021 example_state) =
       [\<lparr>a_year = 2020, a_tempMed = Some (61 / 2), anomalia = Some (- 1)\<rparr>,
        \<lparr>a_year = 2021, a_tempMed = Some (71 / 2), anomalia = Some 4\<rparr>]"
    by (simp add: table example_anomalies)
  from alloc0 dias anom kept same show ?thesis
    by blast
qed

end
